theory Spec2Isabelle
  imports Complex_Main
begin

section \<open>A physics-informed network with soft boundary conditions\<close>

text \<open>
  The development embeds \<^verbatim>\<open>src/ode_PINN_softBC.py\<close>, class \<^verbatim>\<open>ODE_PINN_SOFTBC\<close>.

  Conventions of the embedding.
  \<^item> Tensor entries and Python floats are real numbers: rounding and overflow are not
    modelled. The one NaN the code itself produces, the quotient \<^verbatim>\<open>0/0\<close> of a tensor
    sum by the length of an empty batch, is kept: a loss is a \<open>real option\<close> and
    \<open>None\<close> is NaN. Every comparison with NaN is false, as in Python.
  \<^item> A batch of shape \<^verbatim>\<open>[n, 1]\<close> is a list of \<open>n\<close> reals. The network acts on each row
    on its own (linear layers and tanh do), so a network is a function on one row.
  \<^item> The torch library is a collaborator. Its automatic differentiation is the pair of
    functions \<open>D1\<close> and \<open>D2\<close> next to \<open>fwd\<close>; its optimizer is \<open>opt_step\<close>; its random
    generator is an explicit state threaded through every draw.
  \<^item> A raised Python exception is the left injection of a sum.
\<close>

datatype error = ZeroDivisionError | ValueError | TypeError | RuntimeError | IndexError

text \<open>
  The network under parameters \<open>'w\<close> (weights together with the accumulators of the
  optimizer). \<open>fwd\<close> is \<^verbatim>\<open>self.forward\<close> on one row, \<open>D1\<close> is what
  \<^verbatim>\<open>torch.autograd.grad(y_hat, x, ones_like(y_hat), create_graph=True)[0]\<close> returns for
  that row, \<open>D2\<close> the same of \<open>D1\<close>. \<open>opt_step lr L w\<close> is
  \<^verbatim>\<open>optimizer.zero_grad(); loss.backward(); optimizer.step()\<close> at learning rate \<open>lr\<close>
  for the loss \<open>L\<close> seen as a function of the parameters. \<open>opt_new\<close> is
  \<^verbatim>\<open>optim.Adam(self.parameters(), lr=learning_rate)\<close>: a new optimizer starts from
  fresh accumulators. \<open>pow_half\<close> is the float operation \<^verbatim>\<open>** 0.5\<close>.
\<close>

record 'w network =
  fwd :: "'w \<Rightarrow> real \<Rightarrow> real"
  D1 :: "'w \<Rightarrow> real \<Rightarrow> real"
  D2 :: "'w \<Rightarrow> real \<Rightarrow> real"
  opt_step :: "real \<Rightarrow> ('w \<Rightarrow> real option) \<Rightarrow> 'w \<Rightarrow> 'w"
  opt_new :: "'w \<Rightarrow> 'w"
  pow_half :: "real \<Rightarrow> real"

text \<open>
  The default random generator of torch, with state \<open>'g\<close>. \<open>rand n\<close> is
  \<^verbatim>\<open>torch.rand(n, 1)\<close>, \<open>randperm n\<close> the order in which a shuffling
  \<^verbatim>\<open>DataLoader\<close> visits a dataset of \<open>n\<close> rows, \<open>manual_seed\<close> is
  \<^verbatim>\<open>torch.manual_seed\<close>.
\<close>

record 'g torch_random =
  rand :: "nat \<Rightarrow> 'g \<Rightarrow> real list \<times> 'g"
  randperm :: "nat \<Rightarrow> 'g \<Rightarrow> nat list \<times> 'g"
  manual_seed :: "int \<Rightarrow> 'g"

text \<open>
  The layers \<^verbatim>\<open>__init__\<close> builds, by their constructor arguments. \<open>Rff k\<close> is
  \<^verbatim>\<open>rff(1, k, u, std, rff_B)\<close>, \<open>Linear i o\<close> is \<^verbatim>\<open>nn.Linear(i, o)\<close>.
\<close>

datatype layer = Rff int | Linear int int | Tanh

text \<open>
  The fields of \<^verbatim>\<open>self\<close> that \<^verbatim>\<open>__init__\<close> stores and nothing changes afterwards.
  \<open>ode_f\<close> is \<^verbatim>\<open>self.f\<close>, applied row by row; \<open>BC\<close> is the tuple \<^verbatim>\<open>(type, yl, yu)\<close>;
  \<open>lambdas\<close> is the tuple read at the indices 1 and 2 by the loss. \<^verbatim>\<open>self.xl\<close> and
  \<^verbatim>\<open>self.xu\<close> are the one-row batches holding \<open>lb\<close> and \<open>ub\<close>. \<open>output_layer\<close> is
  \<^verbatim>\<open>self.output\<close>.
\<close>

record pinn =
  ode_f :: "real \<Rightarrow> real \<Rightarrow> real \<Rightarrow> real"
  lb :: real
  ub :: real
  BC :: "int \<times> real \<times> real"
  lambdas :: "real \<times> real \<times> real"
  n_hidden :: int
  n_layers :: int
  input :: "layer list"
  hiddens :: "layer list list"
  output_layer :: layer

text \<open>
  Everything a run changes: the parameters, the generator, the three histories of
  \<^verbatim>\<open>self\<close>, the learning rate \<^verbatim>\<open>optimizer.param_groups[0]['lr']\<close>, the counter
  \<^verbatim>\<open>scheduler.last_epoch\<close>, and the lines printed so far. The learning rate and the
  counter belong to objects that \<^verbatim>\<open>Train\<close> creates; \<^verbatim>\<open>Train\<close> sets both when it
  starts, whatever they held before.
\<close>

datatype line =
    Dashes
  | EpochBanner nat nat
  | StepLine nat nat nat nat "real option"
  | EpochLine nat nat "real option" "real option"
  | EpochLineL2 nat nat "real option" "real option" real

record ('w, 'g) session =
  params :: 'w
  gen :: 'g
  train_loss :: "real option list"
  validate_loss :: "real option list"
  L2_loss :: "real list"
  lr :: real
  last_epoch :: nat
  printed :: "line list"

text \<open>The arguments of \<^verbatim>\<open>Train\<close>. Counts are natural numbers.\<close>

record train_args =
  train_num :: nat
  train_batch_size :: nat
  learning_rate :: real
  lr_step_size :: nat
  min_lr :: real
  lr_gamma :: real
  abs_tolerance :: real
  max_epoch :: nat
  compute_L2_loss :: bool
  true_sol :: "(real \<Rightarrow> real) option"
  display :: bool

subsection \<open>The loss\<close>

text \<open>
  Lines 110 to 131 of \<^verbatim>\<open>ResidualLoss\<close>: the pair \<^verbatim>\<open>(Lb1, Lb2)\<close>, chosen by
  \<^verbatim>\<open>if self.BC[0] == 1 ... elif self.BC[0] == 2 ... else ...\<close>.
\<close>

definition BC_terms :: "'w network \<Rightarrow> pinn \<Rightarrow> 'w \<Rightarrow> real \<times> real" where
  "BC_terms N c w =
     (case BC c of (kind, yl, yu) \<Rightarrow>
      case lambdas c of (lambda0, lambda1, lambda2) \<Rightarrow>
        if kind = 1 then
          (lambda1 * (fwd N w (lb c) - yl)\<^sup>2,
           lambda2 * (fwd N w (ub c) - yu)\<^sup>2)
        else if kind = 2 then
          (let y_hat_l = fwd N w (lb c);
               y_hat_u = fwd N w (ub c);
               D1y_hat_u = D1 N w (ub c)
           in (lambda1 * (y_hat_l - yl)\<^sup>2,
               lambda2 * (D1y_hat_u - yu)\<^sup>2))
        else
          (let y_hat_l = fwd N w (lb c);
               y_hat_u = fwd N w (ub c);
               D1y_hat_l = D1 N w (lb c);
               D1y_hat_u = D1 N w (ub c)
           in (lambda1 * (y_hat_l + D1y_hat_l - yl)\<^sup>2,
               lambda2 * (D1y_hat_u - yu)\<^sup>2)))"

text \<open>
  \<^verbatim>\<open>Lp = ((D2y_hat - f_hat)**2).sum()/len(x)\<close>: a tensor divided by a Python int.
  For an empty batch the sum is 0 and the quotient is NaN; no exception is raised.
\<close>

definition Lp :: "'w network \<Rightarrow> pinn \<Rightarrow> 'w \<Rightarrow> real list \<Rightarrow> real option" where
  "Lp N c w x =
     (let s = (\<Sum>xi\<leftarrow>x. (D2 N w xi - ode_f c xi (fwd N w xi) (D1 N w xi))\<^sup>2)
      in if length x = 0 then None else Some (s / real (length x)))"

text \<open>
  \<^verbatim>\<open>ResidualLoss(x, y_hat)\<close> with \<^verbatim>\<open>y_hat = self.forward(x)\<close>, which is how every
  caller in the file calls it. NaN plus a number is NaN.
\<close>

definition ResidualLoss :: "'w network \<Rightarrow> pinn \<Rightarrow> 'w \<Rightarrow> real list \<Rightarrow> real option" where
  "ResidualLoss N c w x =
     (case BC_terms N c w of (Lb1, Lb2) \<Rightarrow>
        map_option (\<lambda>p. p + Lb1 + Lb2) (Lp N c w x))"

subsection \<open>Python arithmetic\<close>

text \<open>
  \<^verbatim>\<open>round(r)\<close> of a float: the nearest integer, a tie going to the even neighbour.
\<close>

definition py_round :: "real \<Rightarrow> int" where
  "py_round r =
     (let fl = \<lfloor>r\<rfloor>; d = r - of_int fl
      in if d < 1 / 2 then fl
         else if 1 / 2 < d then fl + 1
         else if even fl then fl else fl + 1)"

text \<open>Addition and comparison of floats that may be NaN.\<close>

definition nan_add :: "real option \<Rightarrow> real option \<Rightarrow> real option" where
  "nan_add a b = (case a of None \<Rightarrow> None | Some u \<Rightarrow> map_option (\<lambda>v. u + v) b)"

definition nan_less :: "real option \<Rightarrow> real \<Rightarrow> bool" where
  "nan_less a t = (case a of None \<Rightarrow> False | Some u \<Rightarrow> u < t)"

subsection \<open>Sampling and the data loader\<close>

definition sample_one_batch ::
  "'g torch_random \<Rightarrow> pinn \<Rightarrow> nat \<Rightarrow> int \<Rightarrow> 'g \<Rightarrow> real list \<times> 'g" where
  "sample_one_batch R c batch_size random_seed g =
     (let g0 = (if 0 < random_seed then manual_seed R random_seed else g);
          r = rand R batch_size g0
      in (map (\<lambda>t. (ub c - lb c) * t + lb c) (fst r), snd r))"

text \<open>
  Modelled from the spec: \<^verbatim>\<open>UnlabeledDataset\<close> (module \<^verbatim>\<open>src.unlabeled_dataset\<close>, which
  is not among the sources), the dataset over a sample batch: one item per row, in the
  order of the tensor.
\<close>

definition UnlabeledDataset :: "real list \<Rightarrow> real list" where
  "UnlabeledDataset x_tensor = x_tensor"

text \<open>
  A \<^verbatim>\<open>DataLoader(dataset, batch_size=train_batch_size, shuffle=True)\<close>: the dataset
  and the batch size.
\<close>

record loader =
  dataset :: "real list"
  batch_size :: nat

text \<open>
  The constructor of \<^verbatim>\<open>DataLoader\<close> with \<^verbatim>\<open>shuffle=True\<close> raises \<^verbatim>\<open>ValueError\<close>
  for an empty dataset, and for a batch size that is not positive.
\<close>

definition construct_train_dataloader ::
  "'g torch_random \<Rightarrow> pinn \<Rightarrow> nat \<Rightarrow> nat \<Rightarrow> 'g \<Rightarrow> error + (loader \<times> 'g)" where
  "construct_train_dataloader R c train_batch_sz train_sample_num g =
     (let r = rand R train_sample_num g;
          x_tensor = map (\<lambda>t. (ub c - lb c) * t + lb c) (fst r);
          dataset_arg = UnlabeledDataset x_tensor
      in if length dataset_arg = 0 then Inl ValueError
         else if train_batch_sz = 0 then Inl ValueError
         else Inr (\<lparr> dataset = dataset_arg, batch_size = train_batch_sz \<rparr>, snd r))"

text \<open>\<^verbatim>\<open>len(train_dataloader)\<close>: the number of batches, the last one may be short.\<close>

definition loader_len :: "loader \<Rightarrow> nat" where
  "loader_len L = (length (dataset L) + batch_size L - 1) div batch_size L"

text \<open>Consecutive groups of \<open>k\<close> rows; the last group keeps what is left.\<close>

function chunks :: "nat \<Rightarrow> 'a list \<Rightarrow> 'a list list" where
  "chunks k xs = (if k = 0 \<or> xs = [] then [] else take k xs # chunks k (drop k xs))"
  by pat_completeness auto
termination
  by (relation "measure (\<lambda>(k, xs). length xs)") auto

declare chunks.simps [simp del]

text \<open>
  One pass \<^verbatim>\<open>for i, x in enumerate(train_dataloader)\<close>: a new order is drawn, the
  rows are taken in that order and grouped.
\<close>

definition loader_batches :: "'g torch_random \<Rightarrow> loader \<Rightarrow> 'g \<Rightarrow> real list list \<times> 'g" where
  "loader_batches R L g =
     (let p = randperm R (length (dataset L)) g
      in (chunks (batch_size L) (map (\<lambda>i. dataset L ! i) (fst p)), snd p))"

subsection \<open>Evaluation\<close>

text \<open>
  \<^verbatim>\<open>Validate(sample_num, random_seed)\<close>: a batch is drawn, the loss is computed, the
  parameters stay as they are. The result is the loss and the generator after the draw.
\<close>

definition Validate ::
  "'w network \<Rightarrow> 'g torch_random \<Rightarrow> pinn \<Rightarrow> nat \<Rightarrow> int \<Rightarrow> ('w, 'g) session
     \<Rightarrow> real option \<times> ('w, 'g) session" where
  "Validate N R c sample_num random_seed s =
     (let b = sample_one_batch R c sample_num random_seed (gen s);
          x = fst b;
          loss = ResidualLoss N c (params s) x
      in (loss, s\<lparr>gen := snd b\<rparr>))"

text \<open>
  \<^verbatim>\<open>torch.linspace(a, b, n)\<close> and \<^verbatim>\<open>torch.trapz(z, x)\<close>, then
  \<^verbatim>\<open>L2_error(true_sol)\<close>.
\<close>

definition linspace :: "real \<Rightarrow> real \<Rightarrow> nat \<Rightarrow> real list" where
  "linspace a b n = map (\<lambda>i. a + real i * ((b - a) / real (n - 1))) [0..<n]"

definition trapz :: "real list \<Rightarrow> real list \<Rightarrow> real" where
  "trapz z x = (\<Sum>i\<leftarrow>[0..<length x - 1]. (x ! (i + 1) - x ! i) * (z ! (i + 1) + z ! i) / 2)"

definition L2_error :: "'w network \<Rightarrow> pinn \<Rightarrow> 'w \<Rightarrow> (real \<Rightarrow> real) \<Rightarrow> real" where
  "L2_error N c w sol =
     (let x = linspace (lb c) (ub c) 2000;
          y_hat = map (fwd N w) x;
          y_true = map sol x;
          z = map2 (\<lambda>t h. (t - h)\<^sup>2) y_true y_hat;
          res = trapz z x
      in pow_half N res)"

subsection \<open>The training loop\<close>

definition print :: "line list \<Rightarrow> ('w, 'g) session \<Rightarrow> ('w, 'g) session" where
  "print ls s = s\<lparr>printed := printed s @ ls\<rparr>"

text \<open>
  The test \<^verbatim>\<open>(i==0) or ((i+1) % round(n_train_batches/5) == 0)\<close> of the progress
  report. \<^verbatim>\<open>or\<close> evaluates its right operand only when the left one is false; the
  remainder by zero raises.
\<close>

definition step_shown :: "nat \<Rightarrow> nat \<Rightarrow> error + bool" where
  "step_shown i n_train_batches =
     (if i = 0 then Inr True
      else let d = py_round (real n_train_batches / 5)
           in if d = 0 then Inl ZeroDivisionError
              else Inr ((int i + 1) mod d = 0))"

text \<open>
  The body of the inner loop for the batches from index \<open>i\<close> on. The accumulator is
  the local \<^verbatim>\<open>train_loss\<close>.
\<close>

fun run_steps ::
  "'w network \<Rightarrow> pinn \<Rightarrow> train_args \<Rightarrow> nat \<Rightarrow> nat \<Rightarrow> nat \<Rightarrow> real list list
     \<Rightarrow> ('w, 'g) session \<Rightarrow> real option \<Rightarrow> error + (('w, 'g) session \<times> real option)" where
  "run_steps N c A epoch n_train_batches i [] s acc = Inr (s, acc)"
| "run_steps N c A epoch n_train_batches i (x # rest) s acc =
     (let loss = ResidualLoss N c (params s) x;
          s1 = s\<lparr>params := opt_step N (lr s) (\<lambda>w. ResidualLoss N c w x) (params s)\<rparr>;
          acc1 = nan_add acc loss
      in if display A then
           (case step_shown i n_train_batches of
              Inl e \<Rightarrow> Inl e
            | Inr shown \<Rightarrow>
                run_steps N c A epoch n_train_batches (i + 1) rest
                  (if shown
                   then print [StepLine (epoch + 1) (max_epoch A) (i + 1) n_train_batches loss] s1
                   else s1)
                  acc1)
         else run_steps N c A epoch n_train_batches (i + 1) rest s1 acc1)"

text \<open>Line 195: \<^verbatim>\<open>validate_num = round(train_num/3)\<close>.\<close>

definition validate_num :: "nat \<Rightarrow> int" where
  "validate_num n = py_round (real n / 3)"

text \<open>Lines 171 to 209: one epoch up to and including its report.\<close>

definition epoch_body ::
  "'w network \<Rightarrow> 'g torch_random \<Rightarrow> pinn \<Rightarrow> train_args \<Rightarrow> loader \<Rightarrow> nat \<Rightarrow> nat
     \<Rightarrow> ('w, 'g) session \<Rightarrow> error + ('w, 'g) session" where
  "epoch_body N R c A L n_train_batches epoch s =
     (let s0 = (if display A then print [Dashes, EpochBanner (epoch + 1) (max_epoch A)] s else s);
          bs = loader_batches R L (gen s0)
      in case run_steps N c A epoch n_train_batches 0 (fst bs) (s0\<lparr>gen := snd bs\<rparr>) (Some 0) of
           Inl e \<Rightarrow> Inl e
         | Inr (s1, total_loss) \<Rightarrow>
             (let v = Validate N R c (nat (validate_num (train_num A))) (- 1) s1;
                  s2 = (snd v)\<lparr>validate_loss := validate_loss (snd v) @ [fst v]\<rparr>
              in if n_train_batches = 0 then Inl ZeroDivisionError
                 else
                   (let s3 = s2\<lparr>train_loss := train_loss s2
                                  @ [map_option (\<lambda>t. t / real n_train_batches) total_loss]\<rparr>
                    in if compute_L2_loss A then
                         (case true_sol A of
                            None \<Rightarrow> Inl TypeError
                          | Some sol \<Rightarrow>
                              (let s4 = s3\<lparr>L2_loss := L2_loss s3 @ [L2_error N c (params s3) sol]\<rparr>
                               in Inr (if display A
                                       then print [EpochLineL2 (epoch + 1) (max_epoch A)
                                                     (last (train_loss s4)) (last (validate_loss s4))
                                                     (last (L2_loss s4))] s4
                                       else s4)))
                       else Inr (if display A
                                 then print [EpochLine (epoch + 1) (max_epoch A)
                                               (last (train_loss s3)) (last (validate_loss s3))] s3
                                 else s3))))"

text \<open>
  Lines 214 to 217, on the whole history: the last 26 values, newest first; their 25
  differences; each divided by the newer of its two values; the count of quotients
  whose absolute value is below \<^verbatim>\<open>0.0001\<close> compared with 25. A quotient by zero is an
  infinity or NaN in numpy, and so is every quotient involving NaN: it is \<open>None\<close>
  here and is not below the bound.
\<close>

definition np_rel :: "real option \<Rightarrow> real option \<Rightarrow> real option" where
  "np_rel newer older =
     (case (newer, older) of
        (Some a, Some b) \<Rightarrow> if a = 0 then None else Some \<bar>(b - a) / a\<bar>
      | _ \<Rightarrow> None)"

definition plateau :: "real option list \<Rightarrow> bool" where
  "plateau vl =
     (let temp_validate_loss = take 26 (rev vl);
          temp_rel_validate_loss =
            map2 np_rel (take 25 temp_validate_loss) (tl temp_validate_loss)
      in length (filter (\<lambda>r. nan_less r (1 / 10000)) temp_rel_validate_loss) = 25)"

text \<open>
  \<^verbatim>\<open>scheduler.step()\<close> of \<^verbatim>\<open>StepLR(optimizer, step_size, gamma)\<close>: the counter goes up
  by one, and the rate is multiplied by \<open>gamma\<close> when the counter is a multiple of
  \<open>step_size\<close>. The remainder by a zero \<open>step_size\<close> raises.
\<close>

definition scheduler_step :: "train_args \<Rightarrow> ('w, 'g) session \<Rightarrow> error + ('w, 'g) session" where
  "scheduler_step A s =
     (let n = last_epoch s + 1
      in if lr_step_size A = 0 then Inl ZeroDivisionError
         else if n mod lr_step_size A \<noteq> 0 then Inr (s\<lparr>last_epoch := n\<rparr>)
         else Inr (s\<lparr>last_epoch := n, lr := lr s * lr_gamma A\<rparr>))"

text \<open>
  Lines 211 to 220, the end of an epoch. The result says whether the loop is left by
  \<^verbatim>\<open>break\<close>. \<^verbatim>\<open>self.validate_loss[-1]\<close> raises on an empty history.
\<close>

definition stop_rule :: "train_args \<Rightarrow> ('w, 'g) session \<Rightarrow> error + (bool \<times> ('w, 'g) session)" where
  "stop_rule A s =
     (if validate_loss s = [] then Inl IndexError
      else if nan_less (last (validate_loss s)) (abs_tolerance A) then Inr (True, s)
      else if 26 < length (validate_loss s) then
        (if plateau (validate_loss s) then Inr (True, s) else Inr (False, s))
      else if min_lr A < lr s then
        (case scheduler_step A s of Inl e \<Rightarrow> Inl e | Inr s1 \<Rightarrow> Inr (False, s1))
      else Inr (False, s))"

text \<open>\<^verbatim>\<open>for epoch in range(max_epoch)\<close>, over the epochs still to run.\<close>

fun epochs ::
  "'w network \<Rightarrow> 'g torch_random \<Rightarrow> pinn \<Rightarrow> train_args \<Rightarrow> loader \<Rightarrow> nat \<Rightarrow> nat list
     \<Rightarrow> ('w, 'g) session \<Rightarrow> error + ('w, 'g) session" where
  "epochs N R c A L n_train_batches [] s = Inr s"
| "epochs N R c A L n_train_batches (epoch # rest) s =
     (case epoch_body N R c A L n_train_batches epoch s of
        Inl e \<Rightarrow> Inl e
      | Inr s1 \<Rightarrow>
          (case stop_rule A s1 of
             Inl e \<Rightarrow> Inl e
           | Inr (stop, s2) \<Rightarrow>
               if stop then Inr s2 else epochs N R c A L n_train_batches rest s2))"

text \<open>
  \<^verbatim>\<open>Train\<close>. The constructor of \<^verbatim>\<open>Adam\<close> raises \<^verbatim>\<open>ValueError\<close> for a negative
  learning rate; a new \<^verbatim>\<open>StepLR\<close> has counted no epoch.
\<close>

definition Train ::
  "'w network \<Rightarrow> 'g torch_random \<Rightarrow> pinn \<Rightarrow> train_args \<Rightarrow> ('w, 'g) session
     \<Rightarrow> error + ('w, 'g) session" where
  "Train N R c A s =
     (case construct_train_dataloader R c (train_batch_size A) (train_num A) (gen s) of
        Inl e \<Rightarrow> Inl e
      | Inr (train_dataloader, g) \<Rightarrow>
          (let n_train_batches = loader_len train_dataloader
           in if learning_rate A < 0 then Inl ValueError
              else epochs N R c A train_dataloader n_train_batches [0..<max_epoch A]
                     (s\<lparr>gen := g, params := opt_new N (params s),
                        lr := learning_rate A, last_epoch := 0\<rparr>)))"

subsection \<open>Construction\<close>

text \<open>
  Modelled from the spec: \<^verbatim>\<open>rff\<close> (module \<^verbatim>\<open>src.nn_rff\<close>, which is not among the
  sources), the feature encoder with \<open>k\<close> features; its construction has no error
  conditions.
\<close>

definition rff :: "int \<Rightarrow> error + layer" where
  "rff k = Inr (Rff k)"

text \<open>
  \<^verbatim>\<open>nn.Linear(i, o)\<close> allocates an \<open>o\<close> by \<open>i\<close> weight; torch raises
  \<^verbatim>\<open>RuntimeError\<close> for a negative dimension.
\<close>

definition nn_Linear :: "int \<Rightarrow> int \<Rightarrow> error + layer" where
  "nn_Linear i out = (if i < 0 \<or> out < 0 then Inl RuntimeError else Inr (Linear i out))"

text \<open>
  \<^verbatim>\<open>__init__\<close>. \<open>w0\<close> are the parameter values the layer constructors draw and \<open>g\<close>
  is the generator after they did. The hidden blocks are built
  \<^verbatim>\<open>for _ in range(self.n_layers-3)\<close>.
\<close>

definition init ::
  "(real \<Rightarrow> real \<Rightarrow> real \<Rightarrow> real) \<Rightarrow> real \<Rightarrow> real \<Rightarrow> int \<times> real \<times> real \<Rightarrow> real \<times> real \<times> real
     \<Rightarrow> int \<Rightarrow> int \<Rightarrow> bool \<Rightarrow> int \<Rightarrow> 'w \<Rightarrow> 'g \<Rightarrow> error + (pinn \<times> ('w, 'g) session)" where
  "init f_arg lb_arg ub_arg BC_arg lambdas_arg n_hidden_arg n_layers_arg set_rff rff_num w0 g =
     (case (if set_rff
            then (case rff rff_num of
                    Inl e \<Rightarrow> Inl e
                  | Inr enc \<Rightarrow>
                      (case nn_Linear (2 * rff_num) n_hidden_arg of
                         Inl e \<Rightarrow> Inl e | Inr l \<Rightarrow> Inr [enc, l, Tanh]))
            else (case nn_Linear 1 n_hidden_arg of
                    Inl e \<Rightarrow> Inl e | Inr l \<Rightarrow> Inr [l, Tanh])) of
        Inl e \<Rightarrow> Inl e
      | Inr inp \<Rightarrow>
          (case (if 0 < nat (n_layers_arg - 3)
                 then (case nn_Linear n_hidden_arg n_hidden_arg of
                         Inl e \<Rightarrow> Inl e
                       | Inr l \<Rightarrow> Inr (replicate (nat (n_layers_arg - 3)) [l, Tanh]))
                 else Inr []) of
             Inl e \<Rightarrow> Inl e
           | Inr hid \<Rightarrow>
               (case nn_Linear n_hidden_arg 1 of
                  Inl e \<Rightarrow> Inl e
                | Inr outp \<Rightarrow>
                    Inr (\<lparr> ode_f = f_arg, lb = lb_arg, ub = ub_arg, BC = BC_arg,
                           lambdas = lambdas_arg, n_hidden = n_hidden_arg,
                           n_layers = n_layers_arg, input = inp, hiddens = hid,
                           output_layer = outp \<rparr>,
                         \<lparr> params = w0, gen = g, train_loss = [], validate_loss = [],
                           L2_loss = [], lr = 0, last_epoch = 0, printed = [] \<rparr>))))"

subsection \<open>The loss as the specification words it\<close>

text \<open>The mean of a batch of numbers; the mean of no numbers is NaN.\<close>

definition mean :: "real list \<Rightarrow> real option" where
  "mean zs = (if zs = [] then None else Some (sum_list zs / real (length zs)))"

text \<open>The squared residual of the equation \<open>y'' = f(x, y, y')\<close> at one interior point.\<close>

definition interior_sq :: "'w network \<Rightarrow> pinn \<Rightarrow> 'w \<Rightarrow> real \<Rightarrow> real" where
  "interior_sq N c w xi = (D2 N w xi - ode_f c xi (fwd N w xi) (D1 N w xi))\<^sup>2"

text \<open>
  The relative change between two consecutive validation losses, counted from the end
  of the history: \<open>rel_change vl 0\<close> compares the last value with the one before it.
  The difference is divided by the later of the two values.
\<close>

definition rel_change :: "real option list \<Rightarrow> nat \<Rightarrow> real option" where
  "rel_change vl i = np_rel (vl ! (length vl - 1 - i)) (vl ! (length vl - 2 - i))"

text \<open>
  The other reading of a relative change from one epoch to the next: the difference
  divided by the earlier of the two values.
\<close>

definition rel_change_prev :: "real option list \<Rightarrow> nat \<Rightarrow> real option" where
  "rel_change_prev vl i =
     (case (vl ! (length vl - 1 - i), vl ! (length vl - 2 - i)) of
        (Some a, Some b) \<Rightarrow> if b = 0 then None else Some \<bar>(a - b) / b\<bar>
      | _ \<Rightarrow> None)"

subsection \<open>A concrete network for evaluation\<close>

text \<open>
  One weight \<open>w\<close>, the network \<open>x \<mapsto> w * x\<close> with its two derivatives, and an
  optimizer that moves the weight by the learning rate.
\<close>

definition lin_net :: "real network" where
  "lin_net = \<lparr> fwd = (\<lambda>w x. w * x), D1 = (\<lambda>w x. w), D2 = (\<lambda>w x. 0),
               opt_step = (\<lambda>rate L w. w - rate), opt_new = (\<lambda>w. w),
               pow_half = (\<lambda>r. r) \<rparr>"

text \<open>The same network under an optimizer that leaves the weight where it is.\<close>

definition still_net :: "real network" where
  "still_net = lin_net\<lparr>opt_step := (\<lambda>rate L w. w)\<rparr>"

text \<open>
  A generator that counts its draws: every draw is the midpoint \<open>1/2\<close>, every order
  is the order of the dataset.
\<close>

definition det_random :: "nat torch_random" where
  "det_random = \<lparr> rand = (\<lambda>n g. (replicate n (1 / 2), g + 1)),
                   randperm = (\<lambda>n g. ([0..<n], g + 1)),
                   manual_seed = (\<lambda>k. nat k) \<rparr>"

text \<open>
  Arguments of a run: sample count, batch size, epoch count and the display flag are
  left open; the tolerance is zero, so that no loss is below it.
\<close>

definition args :: "nat \<Rightarrow> nat \<Rightarrow> nat \<Rightarrow> bool \<Rightarrow> train_args" where
  "args n b m d =
     \<lparr> train_num = n, train_batch_size = b, learning_rate = 1 / 10, lr_step_size = 1,
       min_lr = 1 / 100, lr_gamma = 1 / 2, abs_tolerance = 0, max_epoch = m,
       compute_L2_loss = False, true_sol = None, display = d \<rparr>"

text \<open>A session with weight 2, a given validation history and a given learning rate.\<close>

definition sess :: "real option list \<Rightarrow> real \<Rightarrow> (real, nat) session" where
  "sess vl rate =
     \<lparr> params = 2, gen = 0, train_loss = [], validate_loss = vl, L2_loss = [],
       lr = rate, last_epoch = 0, printed = [] \<rparr>"

text \<open>A loader over two samples with batch size five.\<close>

definition pair_loader :: loader where
  "pair_loader = \<lparr> dataset = [1 / 2, 1 / 2], batch_size = 5 \<rparr>"

text \<open>Arguments of a run of two epochs that records the L2 error against \<open>y = x\<close>.\<close>

definition args_L2 :: train_args where
  "args_L2 = (args 2 5 2 False)\<lparr>compute_L2_loss := True, true_sol := Some (\<lambda>x. x)\<rparr>"

definition cfg :: "int \<Rightarrow> pinn" where
  "cfg k = \<lparr> ode_f = (\<lambda>x y y'. 0), lb = 0, ub = 1, BC = (k, 0, 1), lambdas = (5, 2, 3),
              n_hidden = 4, n_layers = 3, input = [Linear 1 4, Tanh], hiddens = [],
              output_layer = Linear 4 1 \<rparr>"

section \<open>Theorems\<close>

subsection \<open>Loss aggregation\<close>

lemma BC_terms_lambda0:
  "BC_terms N (c\<lparr>lambdas := (a, l1, l2)\<rparr>) w = BC_terms N (c\<lparr>lambdas := (b, l1, l2)\<rparr>) w"
  by (simp add: BC_terms_def split: prod.splits)

lemma Lp_mean: "Lp N c w x = mean (map (interior_sq N c w) x)"
  by (simp add: Lp_def mean_def interior_sq_def [abs_def])

lemma interior_sq_lambdas: "interior_sq N (c\<lparr>lambdas := l\<rparr>) = interior_sq N c"
  by (simp add: interior_sq_def fun_eq_iff)

lemma Lp_lambdas: "Lp N (c\<lparr>lambdas := l\<rparr>) w x = Lp N c w x"
  by (simp add: Lp_def)

text \<open>
  Claim C1. For every interior batch, the total loss is the mean over the batch of
  \<open>(D2 - f(x, y_hat, D1))\<^sup>2\<close> plus the two boundary terms. The interior term carries no
  weight: replacing the first entry of \<open>lambdas\<close> changes nothing, and the interior
  term is the same under every choice of weights, while the boundary terms are
  proportional to the second and third entry.
\<close>

theorem ResidualLoss_aggregate:
  "ResidualLoss N c w x =
     map_option (\<lambda>p. p + fst (BC_terms N c w) + snd (BC_terms N c w))
       (mean (map (interior_sq N c w) x))
   \<and> ResidualLoss N (c\<lparr>lambdas := (a, l1, l2)\<rparr>) w x
     = ResidualLoss N (c\<lparr>lambdas := (b, l1, l2)\<rparr>) w x
   \<and> BC_terms N (c\<lparr>lambdas := (a, l1, l2)\<rparr>) w
     = (l1 * fst (BC_terms N (c\<lparr>lambdas := (a, 1, 1)\<rparr>) w),
        l2 * snd (BC_terms N (c\<lparr>lambdas := (a, 1, 1)\<rparr>) w))
   \<and> ResidualLoss N (c\<lparr>lambdas := (a, 0, 0)\<rparr>) w x = mean (map (interior_sq N c w) x)"
proof -
  have agg: "ResidualLoss N c w x =
     map_option (\<lambda>p. p + fst (BC_terms N c w) + snd (BC_terms N c w))
       (mean (map (interior_sq N c w) x))"
    by (simp add: ResidualLoss_def Lp_mean split: prod.splits)
  have unused: "ResidualLoss N (c\<lparr>lambdas := (a, l1, l2)\<rparr>) w x
     = ResidualLoss N (c\<lparr>lambdas := (b, l1, l2)\<rparr>) w x"
    by (simp add: ResidualLoss_def Lp_lambdas BC_terms_lambda0 [where a = a and b = b])
  have weights: "BC_terms N (c\<lparr>lambdas := (a, l1, l2)\<rparr>) w
     = (l1 * fst (BC_terms N (c\<lparr>lambdas := (a, 1, 1)\<rparr>) w),
        l2 * snd (BC_terms N (c\<lparr>lambdas := (a, 1, 1)\<rparr>) w))"
    by (simp add: BC_terms_def Let_def split: prod.splits)
  have zero: "BC_terms N (c\<lparr>lambdas := (a, 0, 0)\<rparr>) w = (0, 0)"
    by (simp add: BC_terms_def Let_def split: prod.splits)
  have interior: "ResidualLoss N (c\<lparr>lambdas := (a, 0, 0)\<rparr>) w x
     = mean (map (interior_sq N c w) x)"
    by (simp add: ResidualLoss_def zero Lp_mean interior_sq_lambdas option.map_ident)
  from agg unused weights interior show ?thesis by blast
qed

subsection \<open>Boundary terms by kind\<close>

text \<open>
  Claim C2. The two boundary terms by case on the kind stored in \<open>BC\<close>: kind 1 gives
  \<open>w1 * (y_hat(lb) - target_l)\<^sup>2\<close> and \<open>w2 * (y_hat(ub) - target_u)\<^sup>2\<close>; kind 2 gives
  \<open>w1 * (y_hat(lb) - target_l)\<^sup>2\<close> and \<open>w2 * (D1y_hat(ub) - target_u)\<^sup>2\<close>; every other
  kind, 3 among them, gives \<open>w1 * (y_hat(lb) + D1y_hat(lb) - target_l)\<^sup>2\<close> and
  \<open>w2 * (D1y_hat(ub) - target_u)\<^sup>2\<close>, and the loss is a value, not an exception.
\<close>

theorem BC_terms_by_kind:
  assumes "BC c = (k, yl, yu)" and "lambdas c = (w0, w1, w2)"
  shows "(k = 1 \<longrightarrow> BC_terms N c w =
            (w1 * (fwd N w (lb c) - yl)\<^sup>2, w2 * (fwd N w (ub c) - yu)\<^sup>2))
       \<and> (k = 2 \<longrightarrow> BC_terms N c w =
            (w1 * (fwd N w (lb c) - yl)\<^sup>2, w2 * (D1 N w (ub c) - yu)\<^sup>2))
       \<and> (k \<noteq> 1 \<and> k \<noteq> 2 \<longrightarrow>
            BC_terms N c w =
              (w1 * (fwd N w (lb c) + D1 N w (lb c) - yl)\<^sup>2, w2 * (D1 N w (ub c) - yu)\<^sup>2)
            \<and> BC_terms N c w = BC_terms N (c\<lparr>BC := (3, yl, yu)\<rparr>) w)"
  using assms by (simp add: BC_terms_def Let_def)

theorem BC_terms_by_kind_witness:
  "BC (cfg 7) = (7, 0, 1) \<and> lambdas (cfg 7) = (5, 2, 3)
   \<and> BC_terms lin_net (cfg 7) 4 = (32, 27)
   \<and> BC_terms lin_net (cfg 7) 4 = BC_terms lin_net (cfg 3) 4
   \<and> BC_terms lin_net (cfg 1) 4 = (0, 27)
   \<and> BC_terms lin_net (cfg 2) 4 = (0, 27)"
proof -
  have b7: "BC (cfg 7) = (7, 0, 1)" and l7: "lambdas (cfg 7) = (5, 2, 3)"
    by (simp_all add: cfg_def)
  have b1: "BC (cfg 1) = (1, 0, 1)" and l1: "lambdas (cfg 1) = (5, 2, 3)"
    by (simp_all add: cfg_def)
  have b2: "BC (cfg 2) = (2, 0, 1)" and l2: "lambdas (cfg 2) = (5, 2, 3)"
    by (simp_all add: cfg_def)
  have b3: "BC (cfg 3) = (3, 0, 1)" and l3: "lambdas (cfg 3) = (5, 2, 3)"
    by (simp_all add: cfg_def)
  have c3: "(cfg 7)\<lparr>BC := (3, 0, 1)\<rparr> = cfg 3"
    by (simp add: cfg_def)
  have v: "fwd lin_net 4 0 = 0" "fwd lin_net 4 1 = 4" "D1 lin_net 4 0 = 4" "D1 lin_net 4 1 = 4"
          "lb (cfg 3) = 0" "ub (cfg 3) = 1" "lb (cfg 7) = 0" "ub (cfg 7) = 1"
          "lb (cfg 1) = 0" "ub (cfg 1) = 1" "lb (cfg 2) = 0" "ub (cfg 2) = 1"
    by (simp_all add: lin_net_def cfg_def)
  show ?thesis
    using BC_terms_by_kind [OF b7 l7, of lin_net 4]
          BC_terms_by_kind [OF b1 l1, of lin_net 4]
          BC_terms_by_kind [OF b2 l2, of lin_net 4]
          BC_terms_by_kind [OF b3 l3, of lin_net 4]
    by (simp add: b7 l7 c3 v)
qed

subsection \<open>Facts about one epoch\<close>

lemma run_steps_fields:
  "run_steps N c A e nb i bs s acc = Inr (s1, t) \<Longrightarrow>
     train_loss s1 = train_loss s \<and> validate_loss s1 = validate_loss s \<and> L2_loss s1 = L2_loss s
     \<and> lr s1 = lr s \<and> last_epoch s1 = last_epoch s \<and> gen s1 = gen s"
proof (induction bs arbitrary: i s acc)
  case Nil
  then show ?case by simp
next
  case (Cons x rest)
  show ?case
  proof (cases "display A")
    case False
    with Cons.prems have "run_steps N c A e nb (i + 1) rest
        (s\<lparr>params := opt_step N (lr s) (\<lambda>w. ResidualLoss N c w x) (params s)\<rparr>)
        (nan_add acc (ResidualLoss N c (params s) x)) = Inr (s1, t)"
      by (simp add: Let_def)
    from Cons.IH [OF this] show ?thesis by simp
  next
    case True
    with Cons.prems obtain shown where sh: "step_shown i nb = Inr shown"
      and r: "run_steps N c A e nb (i + 1) rest
        (if shown
         then print [StepLine (e + 1) (max_epoch A) (i + 1) nb (ResidualLoss N c (params s) x)]
                (s\<lparr>params := opt_step N (lr s) (\<lambda>w. ResidualLoss N c w x) (params s)\<rparr>)
         else s\<lparr>params := opt_step N (lr s) (\<lambda>w. ResidualLoss N c w x) (params s)\<rparr>)
        (nan_add acc (ResidualLoss N c (params s) x)) = Inr (s1, t)"
      by (auto simp: Let_def split: sum.splits)
    from Cons.IH [OF r] show ?thesis by (simp add: print_def split: if_splits)
  qed
qed

lemma epoch_body_Inr:
  assumes "epoch_body N R c A L nb e s = Inr s2"
  shows "\<exists>s1 t. run_steps N c A e nb 0
            (fst (loader_batches R L (gen s)))
            ((if display A then print [Dashes, EpochBanner (e + 1) (max_epoch A)] s else s)
               \<lparr>gen := snd (loader_batches R L (gen s))\<rparr>) (Some 0) = Inr (s1, t)
          \<and> nb \<noteq> 0
          \<and> validate_loss s2 = validate_loss s
               @ [fst (Validate N R c (nat (validate_num (train_num A))) (- 1) s1)]
          \<and> train_loss s2 = train_loss s @ [map_option (\<lambda>u. u / real nb) t]
          \<and> (if compute_L2_loss A
              then \<exists>sol. true_sol A = Some sol
                     \<and> L2_loss s2 = L2_loss s @ [L2_error N c (params s1) sol]
              else L2_loss s2 = L2_loss s)
          \<and> params s2 = params s1
          \<and> gen s2 = gen (snd (Validate N R c (nat (validate_num (train_num A))) (- 1) s1))
          \<and> lr s2 = lr s \<and> last_epoch s2 = last_epoch s"
proof -
  let ?s0 = "(if display A then print [Dashes, EpochBanner (e + 1) (max_epoch A)] s else s)"
  have g0: "gen ?s0 = gen s" by (simp add: print_def)
  from assms obtain s1 t where
    rs: "run_steps N c A e nb 0 (fst (loader_batches R L (gen s)))
           (?s0\<lparr>gen := snd (loader_batches R L (gen s))\<rparr>) (Some 0) = Inr (s1, t)"
    unfolding epoch_body_def Let_def g0
    by (auto split: sum.splits)
  from run_steps_fields [OF rs]
  have f1: "train_loss s1 = train_loss s" "validate_loss s1 = validate_loss s"
    "L2_loss s1 = L2_loss s" "lr s1 = lr s" "last_epoch s1 = last_epoch s"
    by (simp_all add: print_def)
  from assms rs have rest:
    "nb \<noteq> 0
     \<and> validate_loss s2 = validate_loss s1
               @ [fst (Validate N R c (nat (validate_num (train_num A))) (- 1) s1)]
     \<and> train_loss s2 = train_loss s1 @ [map_option (\<lambda>u. u / real nb) t]
     \<and> (if compute_L2_loss A
              then \<exists>sol. true_sol A = Some sol
                     \<and> L2_loss s2 = L2_loss s1 @ [L2_error N c (params s1) sol]
              else L2_loss s2 = L2_loss s1)
     \<and> params s2 = params s1
     \<and> gen s2 = gen (snd (Validate N R c (nat (validate_num (train_num A))) (- 1) s1))
     \<and> lr s2 = lr s1 \<and> last_epoch s2 = last_epoch s1"
    unfolding epoch_body_def Let_def g0
    by (auto simp: print_def Validate_def Let_def split: if_splits option.splits)
  with rs f1 show ?thesis by auto
qed

lemma length_filter_all: "length (filter P xs) = length xs \<longleftrightarrow> (\<forall>x\<in>set xs. P x)"
proof (induction xs)
  case Nil
  then show ?case by simp
next
  case (Cons a xs)
  have "length (filter P xs) \<noteq> Suc (length xs)"
    using length_filter_le [of P xs] by arith
  with Cons show ?case by auto
qed

lemma plateau_iff:
  assumes "26 \<le> length vl"
  shows "plateau vl \<longleftrightarrow> (\<forall>i<25. nan_less (rel_change vl i) (1 / 10000))"
proof -
  let ?temp = "take 26 (rev vl)"
  let ?rels = "map2 np_rel (take 25 ?temp) (tl ?temp)"
  have lt: "length ?temp = 26" using assms by simp
  have lr: "length ?rels = 25" using lt by simp
  have ti: "?temp ! i = vl ! (length vl - 1 - i)" if "i < 26" for i
    using that assms by (simp add: rev_nth)
  have ri: "?rels ! i = rel_change vl i" if "i < 25" for i
  proof -
    have a: "take 25 ?temp ! i = ?temp ! i" using that by simp
    have b: "tl ?temp ! i = ?temp ! Suc i" using that lt by (simp add: nth_tl)
    have c: "?temp ! Suc i = vl ! (length vl - 2 - i)"
      using ti [of "Suc i"] that by (simp add: numeral_2_eq_2)
    have d: "?temp ! i = vl ! (length vl - 1 - i)" using ti [of i] that by simp
    have "?rels ! i = np_rel (take 25 ?temp ! i) (tl ?temp ! i)"
      using that lt by simp
    then show ?thesis by (simp only: a b c d rel_change_def)
  qed
  have "plateau vl \<longleftrightarrow> length (filter (\<lambda>r. nan_less r (1 / 10000)) ?rels) = length ?rels"
    by (simp only: plateau_def Let_def lr)
  also have "\<dots> \<longleftrightarrow> (\<forall>r\<in>set ?rels. nan_less r (1 / 10000))"
    by (rule length_filter_all)
  also have "\<dots> \<longleftrightarrow> (\<forall>i<length ?rels. nan_less (?rels ! i) (1 / 10000))"
    by (simp only: all_set_conv_all_nth)
  also have "\<dots> \<longleftrightarrow> (\<forall>i<25. nan_less (rel_change vl i) (1 / 10000))"
    using ri by (simp only: lr) auto
  finally show ?thesis .
qed

lemma run_steps_tol:
  "run_steps N c (A\<lparr>abs_tolerance := tol\<rparr>) e nb i bs s acc = run_steps N c A e nb i bs s acc"
  by (induction bs arbitrary: i s acc) (simp_all add: Let_def split: sum.splits)

lemma epoch_body_tol:
  "epoch_body N R c (A\<lparr>abs_tolerance := tol\<rparr>) L nb e s = epoch_body N R c A L nb e s"
  by (simp add: epoch_body_def run_steps_tol Let_def split: sum.splits prod.splits option.splits)

lemma epoch_body_nonempty:
  "epoch_body N R c A L nb e s = Inr s1 \<Longrightarrow> validate_loss s1 \<noteq> []"
  by (drule epoch_body_Inr) auto

subsection \<open>Evaluation at concrete inputs\<close>

lemmas run_defs = construct_train_dataloader_def UnlabeledDataset_def loader_len_def epoch_body_def loader_batches_def
  chunks.simps step_shown_def py_round_def validate_num_def Validate_def sample_one_batch_def
  print_def nan_add_def Let_def ResidualLoss_def Lp_def BC_terms_def

lemmas stop_defs = stop_rule_def scheduler_step_def nan_less_def

lemmas conc_defs = det_random_def args_def sess_def lin_net_def still_net_def cfg_def

lemma replicate_snoc: "replicate n x @ [x] = replicate (Suc n) x"
  by (simp add: replicate_append_same)

subsection \<open>Convergence stop\<close>

text \<open>
  Claim C5. After a completed epoch whose recorded validation loss is strictly below
  the absolute tolerance, the loop ends at that epoch: the rule at the end of the epoch
  says stop, the remaining epochs are not run, and the state is the one the epoch
  left, with the learning rate and the scheduler counter as they were before the
  epoch. Neither the plateau test nor the decay is looked at.
\<close>

theorem convergence_stop:
  assumes "epoch_body N R c A L nb e s = Inr s1"
    and "nan_less (last (validate_loss s1)) (abs_tolerance A)"
  shows "stop_rule A s1 = Inr (True, s1)
       \<and> epochs N R c A L nb (e # rest) s = Inr s1
       \<and> lr s1 = lr s \<and> last_epoch s1 = last_epoch s"
proof -
  have ne: "validate_loss s1 \<noteq> []" using assms(1) by (rule epoch_body_nonempty)
  have st: "stop_rule A s1 = Inr (True, s1)"
    using ne assms(2) by (simp add: stop_rule_def)
  have ep: "epochs N R c A L nb (e # rest) s = Inr s1"
    using assms(1) st by simp
  from epoch_body_Inr [OF assms(1)] have "lr s1 = lr s \<and> last_epoch s1 = last_epoch s"
    by auto
  with st ep show ?thesis by simp
qed

theorem convergence_stop_witness:
  "epoch_body lin_net det_random (cfg 1) ((args 2 5 3 False)\<lparr>abs_tolerance := 100\<rparr>)
      pair_loader 1 0 (sess [] (1 / 10))
     = Inr ((sess [Some (243 / 100)] (1 / 10))\<lparr>params := 19 / 10, gen := 2, train_loss := [Some 3]\<rparr>)
   \<and> epochs lin_net det_random (cfg 1) ((args 2 5 3 False)\<lparr>abs_tolerance := 100\<rparr>)
      pair_loader 1 [0, 1, 2] (sess [] (1 / 10))
     = Inr ((sess [Some (243 / 100)] (1 / 10))\<lparr>params := 19 / 10, gen := 2, train_loss := [Some 3]\<rparr>)"
proof -
  let ?A = "(args 2 5 3 False)\<lparr>abs_tolerance := 100\<rparr>"
  let ?s1 = "(sess [Some (243 / 100)] (1 / 10))\<lparr>params := 19 / 10, gen := 2, train_loss := [Some 3]\<rparr>"
  have body: "epoch_body lin_net det_random (cfg 1) ?A pair_loader 1 0 (sess [] (1 / 10)) = Inr ?s1"
    by (simp add: run_defs conc_defs pair_loader_def power2_eq_square)
  have below: "nan_less (last (validate_loss ?s1)) (abs_tolerance ?A)"
    by (simp add: nan_less_def conc_defs)
  from convergence_stop [OF body below, of "[1, 2]"] body show ?thesis by simp
qed

subsection \<open>Plateau stop\<close>

text \<open>
  Claim C3, as amended. After a completed epoch at which at least 27 validation losses
  are recorded and all 25 relative changes of the most recent 26 values are below
  \<open>1/10000\<close> in absolute value, the loop ends at that epoch, whatever the absolute
  tolerance is. A relative change is the difference of two consecutive values divided
  by the later of the two.
\<close>

theorem plateau_stop:
  assumes "epoch_body N R c A L nb e s = Inr s1"
    and "26 < length (validate_loss s1)"
    and "\<forall>i<25. nan_less (rel_change (validate_loss s1) i) (1 / 10000)"
  shows "epochs N R c (A\<lparr>abs_tolerance := tol\<rparr>) L nb (e # rest) s = Inr s1"
proof -
  have pl: "plateau (validate_loss s1)"
    using assms(2,3) plateau_iff [of "validate_loss s1"] by simp
  have ne: "validate_loss s1 \<noteq> []" using assms(2) by auto
  have st: "stop_rule (A\<lparr>abs_tolerance := tol\<rparr>) s1 = Inr (True, s1)"
    using ne pl assms(2) by (simp add: stop_rule_def)
  have eb: "epoch_body N R c (A\<lparr>abs_tolerance := tol\<rparr>) L nb e s = Inr s1"
    using assms(1) by (simp only: epoch_body_tol)
  show ?thesis using eb st by simp
qed

text \<open>
  The theorem at a history of 26 losses \<open>2.99970001\<close> followed by the loss 3 of the
  epoch. Divided by the later value the last change is below \<open>1/10000\<close>; divided by
  the earlier value it is not.
\<close>

theorem plateau_stop_witness:
  "epoch_body still_net det_random (cfg 1) (args 2 5 3 False) pair_loader 1 0
      (sess (replicate 26 (Some (299970001 / 100000000))) (1 / 10))
     = Inr ((sess (replicate 26 (Some (299970001 / 100000000)) @ [Some 3]) (1 / 10))
              \<lparr>gen := 2, train_loss := [Some 3]\<rparr>)
   \<and> epochs still_net det_random (cfg 1) ((args 2 5 3 False)\<lparr>abs_tolerance := 0\<rparr>)
      pair_loader 1 [0, 1, 2] (sess (replicate 26 (Some (299970001 / 100000000))) (1 / 10))
     = Inr ((sess (replicate 26 (Some (299970001 / 100000000)) @ [Some 3]) (1 / 10))
              \<lparr>gen := 2, train_loss := [Some 3]\<rparr>)
   \<and> \<not> nan_less (rel_change_prev (replicate 26 (Some (299970001 / 100000000)) @ [Some 3]) 0)
          (1 / 10000)"
proof -
  let ?vl = "replicate 26 (Some (299970001 / 100000000 :: real)) @ [Some 3]"
  let ?s1 = "(sess ?vl (1 / 10))\<lparr>gen := 2, train_loss := [Some 3]\<rparr>"
  have body: "epoch_body still_net det_random (cfg 1) (args 2 5 3 False) pair_loader 1 0
      (sess (replicate 26 (Some (299970001 / 100000000))) (1 / 10)) = Inr ?s1"
    by (simp add: run_defs conc_defs pair_loader_def power2_eq_square)
  have vl: "validate_loss ?s1 = ?vl" by (simp add: sess_def)
  have len: "26 < length (validate_loss ?s1)"
    by (simp add: sess_def)
  have "nan_less (rel_change ?vl i) (1 / 10000)" if "i < 25" for i
  proof (cases "i = 0")
    case True
    then show ?thesis
      by (simp add: rel_change_def np_rel_def nan_less_def nth_append)
  next
    case False
    with that have "26 - i < 26" "25 - i < 26" by simp_all
    then show ?thesis
      by (simp add: rel_change_def np_rel_def nan_less_def nth_append)
  qed
  then have rel: "\<forall>i<25. nan_less (rel_change (validate_loss ?s1) i) (1 / 10000)"
    unfolding vl by blast
  have prev: "\<not> nan_less (rel_change_prev ?vl 0) (1 / 10000)"
    by (simp add: rel_change_prev_def nan_less_def nth_append)
  from plateau_stop [OF body len rel, of 0 "[1, 2]"] body prev show ?thesis by simp
qed

text \<open>
  Claim C3, as stated. At 26 recorded losses: the first epoch of the run below leaves
  26 equal validation losses, a plateau; the rule does not stop, and the second epoch
  is run. At 27 recorded losses, 26 times 1 and then \<open>0.999900001\<close>: every change
  divided by the value of the earlier epoch is below \<open>1/10000\<close>, the last change
  divided by the later value is not, and the rule does not stop.
\<close>

theorem plateau_26_counterexample:
  "epoch_body still_net det_random (cfg 1) (args 2 5 2 False) pair_loader 1 0
      (sess (replicate 25 (Some 3)) (1 / 1000))
     = Inr ((sess (replicate 26 (Some 3)) (1 / 1000))\<lparr>gen := 2, train_loss := [Some 3]\<rparr>)
   \<and> plateau (replicate 26 (Some 3))
   \<and> stop_rule (args 2 5 2 False)
        ((sess (replicate 26 (Some 3)) (1 / 1000))\<lparr>gen := 2, train_loss := [Some 3]\<rparr>)
     = Inr (False, (sess (replicate 26 (Some 3)) (1 / 1000))\<lparr>gen := 2, train_loss := [Some 3]\<rparr>)
   \<and> epochs still_net det_random (cfg 1) (args 2 5 2 False) pair_loader 1 [0, 1]
        (sess (replicate 25 (Some 3)) (1 / 1000))
     = Inr ((sess (replicate 27 (Some 3)) (1 / 1000))\<lparr>gen := 4, train_loss := [Some 3, Some 3]\<rparr>)
   \<and> length (replicate 26 (Some (1::real)) @ [Some (999900001 / 1000000000)]) = 27
   \<and> list_all (\<lambda>i. nan_less
                     (rel_change_prev (replicate 26 (Some 1) @ [Some (999900001 / 1000000000)]) i)
                     (1 / 10000)) [0..<25]
   \<and> \<not> plateau (replicate 26 (Some 1) @ [Some (999900001 / 1000000000)])
   \<and> stop_rule (args 2 5 2 False)
        (sess (replicate 26 (Some 1) @ [Some (999900001 / 1000000000)]) (1 / 1000))
     = Inr (False, sess (replicate 26 (Some 1) @ [Some (999900001 / 1000000000)]) (1 / 1000))"
proof -
  have r26: "replicate 25 (Some (3::real)) @ [Some 3] = replicate 26 (Some 3)"
    using replicate_snoc [of 25 "Some (3::real)"] by simp
  have r27: "replicate 26 (Some (3::real)) @ [Some 3] = replicate 27 (Some 3)"
    using replicate_snoc [of 26 "Some (3::real)"] by simp
  let ?s1 = "(sess (replicate 26 (Some 3)) (1 / 1000))\<lparr>gen := 2, train_loss := [Some 3]\<rparr>"
  let ?s2 = "(sess (replicate 27 (Some 3)) (1 / 1000))\<lparr>gen := 4, train_loss := [Some 3, Some 3]\<rparr>"
  let ?vl = "replicate 26 (Some (1::real)) @ [Some (999900001 / 1000000000)]"
  have body1: "epoch_body still_net det_random (cfg 1) (args 2 5 2 False) pair_loader 1 0
      (sess (replicate 25 (Some 3)) (1 / 1000)) = Inr ?s1"
    by (simp add: run_defs conc_defs pair_loader_def power2_eq_square r26)
  have pl: "plateau (replicate 26 (Some 3))"
    using plateau_iff [of "replicate 26 (Some 3)"]
    by (simp add: rel_change_def np_rel_def nan_less_def)
  have stop1: "stop_rule (args 2 5 2 False) ?s1 = Inr (False, ?s1)"
    by (simp add: stop_defs args_def sess_def)
  have body2: "epoch_body still_net det_random (cfg 1) (args 2 5 2 False) pair_loader 1 1 ?s1 = Inr ?s2"
    by (simp add: run_defs conc_defs pair_loader_def power2_eq_square r27)
  have pl27: "plateau (replicate 27 (Some 3))"
    using plateau_iff [of "replicate 27 (Some 3)"]
    by (simp add: rel_change_def np_rel_def nan_less_def)
  have stop2: "stop_rule (args 2 5 2 False) ?s2 = Inr (True, ?s2)"
    using pl27 by (simp add: stop_defs args_def sess_def)
  have run: "epochs still_net det_random (cfg 1) (args 2 5 2 False) pair_loader 1 [0, 1]
        (sess (replicate 25 (Some 3)) (1 / 1000)) = Inr ?s2"
    by (simp only: epochs.simps body1 stop1 body2 stop2 sum.case prod.case if_False if_True)
  have len: "length ?vl = 27" by simp
  have "nan_less (rel_change_prev ?vl i) (1 / 10000)" if "i < 25" for i
  proof (cases "i = 0")
    case True
    then show ?thesis
      by (simp add: rel_change_prev_def nan_less_def nth_append)
  next
    case False
    with that have "26 - i < 26" "25 - i < 26" by simp_all
    then show ?thesis
      by (simp add: rel_change_prev_def nan_less_def nth_append)
  qed
  then have prev: "list_all (\<lambda>i. nan_less (rel_change_prev ?vl i) (1 / 10000)) [0..<25]"
    by (simp add: list_all_iff)
  have r0: "rel_change ?vl 0 = Some (99999 / 999900001)"
    by (simp add: rel_change_def np_rel_def nth_append)
  have "\<not> (\<forall>i<25. nan_less (rel_change ?vl i) (1 / 10000))"
  proof
    assume "\<forall>i<25. nan_less (rel_change ?vl i) (1 / 10000)"
    then have "nan_less (rel_change ?vl 0) (1 / 10000)" by simp
    then show False by (simp add: r0 nan_less_def)
  qed
  then have np: "\<not> plateau ?vl"
    using plateau_iff [of ?vl] by simp
  have vl: "validate_loss (sess ?vl (1 / 1000)) = ?vl" by (simp add: sess_def)
  have conv: "\<not> nan_less (last (validate_loss (sess ?vl (1 / 1000)))) (abs_tolerance (args 2 5 2 False))"
    by (simp add: sess_def args_def nan_less_def)
  have rate: "\<not> min_lr (args 2 5 2 False) < lr (sess ?vl (1 / 1000))"
    by (simp add: sess_def args_def)
  have stop3: "stop_rule (args 2 5 2 False) (sess ?vl (1 / 1000)) = Inr (False, sess ?vl (1 / 1000))"
    using conv np rate unfolding stop_rule_def vl by simp
  from body1 pl stop1 run len prev np stop3 show ?thesis by (intro conjI)
qed

subsection \<open>Learning-rate decay\<close>

text \<open>
  Claim C4, evaluated. The history holds 27 validation losses, the last one twice the
  one before it; the tolerance is zero and the learning rate 1 is above the minimum
  1/100. Neither stop triggers, and the rule leaves the session as it is: the
  scheduler, which would have halved the rate, is not advanced. With one loss fewer in
  the history the same rule advances it.
\<close>

theorem decay_skipped_after_26:
  "26 < length (validate_loss (sess (replicate 26 (Some 3) @ [Some 6]) 1))
   \<and> \<not> nan_less (last (validate_loss (sess (replicate 26 (Some 3) @ [Some 6]) 1)))
          (abs_tolerance (args 2 5 30 False))
   \<and> \<not> plateau (validate_loss (sess (replicate 26 (Some 3) @ [Some 6]) 1))
   \<and> min_lr (args 2 5 30 False) < lr (sess (replicate 26 (Some 3) @ [Some 6]) 1)
   \<and> stop_rule (args 2 5 30 False) (sess (replicate 26 (Some 3) @ [Some 6]) 1)
       = Inr (False, sess (replicate 26 (Some 3) @ [Some 6]) 1)
   \<and> scheduler_step (args 2 5 30 False) (sess (replicate 26 (Some 3) @ [Some 6]) 1)
       = Inr ((sess (replicate 26 (Some 3) @ [Some 6]) 1)\<lparr>last_epoch := 1, lr := 1 / 2\<rparr>)
   \<and> stop_rule (args 2 5 30 False) (sess (replicate 25 (Some 3) @ [Some 6]) 1)
       = Inr (False, (sess (replicate 25 (Some 3) @ [Some 6]) 1)\<lparr>last_epoch := 1, lr := 1 / 2\<rparr>)"
proof -
  let ?vl = "replicate 26 (Some (3::real)) @ [Some 6]"
  let ?s = "sess ?vl 1"
  let ?A = "args 2 5 30 False"
  have len: "26 < length (validate_loss ?s)" by (simp add: sess_def)
  have conv: "\<not> nan_less (last (validate_loss ?s)) (abs_tolerance ?A)"
    by (simp add: sess_def args_def nan_less_def)
  have r0: "rel_change ?vl 0 = Some (1 / 2)"
    by (simp add: rel_change_def np_rel_def nth_append)
  have "\<not> (\<forall>i<25. nan_less (rel_change ?vl i) (1 / 10000))"
  proof
    assume "\<forall>i<25. nan_less (rel_change ?vl i) (1 / 10000)"
    then have "nan_less (rel_change ?vl 0) (1 / 10000)" by simp
    then show False by (simp add: r0 nan_less_def)
  qed
  then have np: "\<not> plateau ?vl"
    using plateau_iff [of ?vl] by simp
  then have np': "\<not> plateau (validate_loss ?s)" by (simp add: sess_def)
  have rate: "min_lr ?A < lr ?s" by (simp add: sess_def args_def)
  have vl: "validate_loss ?s = ?vl" by (simp add: sess_def)
  have stop: "stop_rule ?A ?s = Inr (False, ?s)"
    using len conv np' unfolding stop_rule_def vl by simp
  have sched: "scheduler_step ?A ?s = Inr (?s\<lparr>last_epoch := 1, lr := 1 / 2\<rparr>)"
    by (simp add: scheduler_step_def sess_def args_def)
  have before: "stop_rule ?A (sess (replicate 25 (Some 3) @ [Some 6]) 1)
       = Inr (False, (sess (replicate 25 (Some 3) @ [Some 6]) 1)\<lparr>last_epoch := 1, lr := 1 / 2\<rparr>)"
    by (simp add: stop_rule_def scheduler_step_def sess_def args_def nan_less_def)
  from len conv np' rate stop sched before show ?thesis by blast
qed

subsection \<open>Progress display\<close>

text \<open>
  Claim C7, evaluated. Two samples in batches of one make two batches per epoch. With
  the display on, the progress test of the second step takes a remainder by
  \<open>round(2/5) = 0\<close> and the run ends in \<^verbatim>\<open>ZeroDivisionError\<close>; with the display off
  the same run completes.
\<close>

theorem display_two_batches:
  "Train lin_net det_random (cfg 1) (args 2 1 2 True) (sess [] 0) = Inl ZeroDivisionError
   \<and> \<not> isl (Train lin_net det_random (cfg 1) (args 2 1 2 False) (sess [] 0))
   \<and> loader_len \<lparr> dataset = [1 / 2, 1 / 2], batch_size = 1 \<rparr> = 2
   \<and> step_shown 1 2 = Inl ZeroDivisionError"
proof -
  have a: "Train lin_net det_random (cfg 1) (args 2 1 2 True) (sess [] 0) = Inl ZeroDivisionError"
    by (simp add: Train_def run_defs conc_defs upt_rec)
  have b: "\<not> isl (Train lin_net det_random (cfg 1) (args 2 1 2 False) (sess [] 0))"
    by (simp add: Train_def run_defs stop_defs conc_defs upt_rec power2_eq_square)
  have c: "loader_len \<lparr> dataset = [1 / 2, 1 / 2], batch_size = 1 \<rparr> = 2"
    by (simp add: loader_len_def)
  have d: "step_shown 1 2 = Inl ZeroDivisionError"
    by (simp add: step_shown_def py_round_def)
  from a b c d show ?thesis by blast
qed

subsection \<open>Validation at the end of an epoch\<close>

lemma py_round_third: "py_round (real n / 3) = int ((n + 1) div 3)"
proof -
  define k where "k = n div 3"
  define r where "r = n mod 3"
  have n: "n = 3 * k + r" and r: "r < 3" by (simp_all add: k_def r_def)
  have q: "real n / 3 = real k + real r / 3" by (simp add: n)
  have fl: "\<lfloor>real k + real r / 3\<rfloor> = int k"
  proof (rule floor_unique)
    show "of_int (int k) \<le> real k + real r / 3" by simp
    show "real k + real r / 3 < of_int (int k) + 1" using r by simp
  qed
  have d: "real k + real r / 3 - of_int (int k) = real r / 3" by simp
  have pr: "py_round (real n / 3) = (if r = 2 then int k + 1 else int k)"
  proof -
    consider "r = 0" | "r = 1" | "r = 2" using r by linarith
    then show ?thesis
      by cases (simp_all add: py_round_def q fl d Let_def)
  qed
  have dv: "(n + 1) div 3 = (if r = 2 then k + 1 else k)"
  proof -
    consider "r = 0" | "r = 1" | "r = 2" using r by linarith
    then show ?thesis by cases (simp_all add: n)
  qed
  show ?thesis unfolding pr dv by simp
qed

text \<open>
  Claim C6, as amended. At the end of every completed epoch a fresh batch is drawn
  whose size is \<open>train_num / 3\<close> rounded to the nearest integer, which is the floor of
  \<open>(train_num + 1) / 3\<close>; the value appended to the validation history is the loss
  function of the training steps at the parameters the last step left, and the
  parameters are the same after the validation.
\<close>

theorem validation_batch:
  assumes "epoch_body N R c A L nb e s = Inr s2"
  shows "\<exists>s1 t.
           run_steps N c A e nb 0 (fst (loader_batches R L (gen s)))
             ((if display A then print [Dashes, EpochBanner (e + 1) (max_epoch A)] s else s)
                \<lparr>gen := snd (loader_batches R L (gen s))\<rparr>) (Some 0) = Inr (s1, t)
         \<and> validate_loss s2 = validate_loss s
             @ [ResidualLoss N c (params s1)
                  (fst (sample_one_batch R c ((train_num A + 1) div 3) (- 1) (gen s1)))]
         \<and> params s2 = params s1
         \<and> gen s2 = snd (sample_one_batch R c ((train_num A + 1) div 3) (- 1) (gen s1))"
proof -
  have vn: "nat (validate_num (train_num A)) = (train_num A + 1) div 3"
    by (simp add: validate_num_def py_round_third)
  from epoch_body_Inr [OF assms] obtain s1 t where
    rs: "run_steps N c A e nb 0 (fst (loader_batches R L (gen s)))
             ((if display A then print [Dashes, EpochBanner (e + 1) (max_epoch A)] s else s)
                \<lparr>gen := snd (loader_batches R L (gen s))\<rparr>) (Some 0) = Inr (s1, t)"
    and v: "validate_loss s2 = validate_loss s
               @ [fst (Validate N R c (nat (validate_num (train_num A))) (- 1) s1)]"
    and p: "params s2 = params s1"
    and g: "gen s2 = gen (snd (Validate N R c (nat (validate_num (train_num A))) (- 1) s1))"
    by blast
  have v': "validate_loss s2 = validate_loss s
             @ [ResidualLoss N c (params s1)
                  (fst (sample_one_batch R c ((train_num A + 1) div 3) (- 1) (gen s1)))]"
    using v by (simp add: vn Validate_def Let_def)
  have g': "gen s2 = snd (sample_one_batch R c ((train_num A + 1) div 3) (- 1) (gen s1))"
    using g by (simp add: vn Validate_def Let_def)
  from rs v' p g' show ?thesis by blast
qed

theorem validation_batch_witness:
  "epoch_body lin_net det_random (cfg 1) (args 2 5 3 False) pair_loader 1 0 (sess [] (1 / 10))
     = Inr ((sess [Some (243 / 100)] (1 / 10))\<lparr>params := 19 / 10, gen := 2, train_loss := [Some 3]\<rparr>)
   \<and> (\<exists>s1 t.
         run_steps lin_net (cfg 1) (args 2 5 3 False) 0 1 0
           (fst (loader_batches det_random pair_loader (gen (sess [] (1 / 10)))))
           ((if display (args 2 5 3 False)
             then print [Dashes, EpochBanner (0 + 1) (max_epoch (args 2 5 3 False))]
                    (sess [] (1 / 10))
             else sess [] (1 / 10))
              \<lparr>gen := snd (loader_batches det_random pair_loader (gen (sess [] (1 / 10))))\<rparr>)
           (Some 0) = Inr (s1, t)
       \<and> validate_loss ((sess [Some (243 / 100)] (1 / 10))
                          \<lparr>params := 19 / 10, gen := 2, train_loss := [Some 3]\<rparr>)
           = validate_loss (sess [] (1 / 10))
             @ [ResidualLoss lin_net (cfg 1) (params s1)
                  (fst (sample_one_batch det_random (cfg 1)
                          ((train_num (args 2 5 3 False) + 1) div 3) (- 1) (gen s1)))]
       \<and> params ((sess [Some (243 / 100)] (1 / 10))
                   \<lparr>params := 19 / 10, gen := 2, train_loss := [Some 3]\<rparr>) = params s1
       \<and> gen ((sess [Some (243 / 100)] (1 / 10))
                \<lparr>params := 19 / 10, gen := 2, train_loss := [Some 3]\<rparr>)
           = snd (sample_one_batch det_random (cfg 1)
                    ((train_num (args 2 5 3 False) + 1) div 3) (- 1) (gen s1)))"
proof -
  let ?s2 = "(sess [Some (243 / 100)] (1 / 10))\<lparr>params := 19 / 10, gen := 2, train_loss := [Some 3]\<rparr>"
  have body: "epoch_body lin_net det_random (cfg 1) (args 2 5 3 False) pair_loader 1 0
                (sess [] (1 / 10)) = Inr ?s2"
    by (simp add: run_defs conc_defs pair_loader_def power2_eq_square)
  show ?thesis
    by (rule conjI [OF body validation_batch [OF body]])
qed

text \<open>
  Claim C6, as stated, at a sample count of 2: the validation batch has one row, while
  the floor of 2/3 is zero.
\<close>

theorem validate_num_counterexample:
  "validate_num 2 = 1 \<and> \<lfloor>real (2::nat) / 3\<rfloor> = (0::int)
   \<and> length (fst (sample_one_batch det_random (cfg 1) (nat (validate_num 2)) (- 1) 0)) = 1"
  by (simp add: validate_num_def py_round_def sample_one_batch_def det_random_def)

subsection \<open>Construction\<close>

text \<open>
  Claim C9, as amended. The constructor checks neither the depth nor the bounds. It
  raises exactly when a layer width is negative; otherwise it returns the model with
  the bounds and the depth stored as given, and with \<open>n_layers - 3\<close> hidden blocks, none
  when \<open>n_layers\<close> is at most 3.
\<close>

theorem init_accepts:
  "(isl (init f_arg lo hi bc lam nh nl rf k w0 g) \<longleftrightarrow> nh < 0 \<or> (rf \<and> k < 0))
   \<and> (\<forall>c s. init f_arg lo hi bc lam nh nl rf k w0 g = Inr (c, s) \<longrightarrow>
         lb c = lo \<and> ub c = hi \<and> n_layers c = nl \<and> length (hiddens c) = nat (nl - 3))"
  by (auto simp: init_def nn_Linear_def rff_def split: sum.splits if_splits)

theorem init_accepts_witness:
  "\<not> isl (init (\<lambda>x y d. 0) 1 0 (1, 0, 0) (1, 1, 1) 10 2 False 25 (0::real) (0::nat))
   \<and> (\<exists>c s. init (\<lambda>x y d. 0) 1 0 (1, 0, 0) (1, 1, 1) 10 2 False 25 (0::real) (0::nat) = Inr (c, s)
         \<and> lb c = 1 \<and> ub c = 0 \<and> n_layers c = 2 \<and> length (hiddens c) = 0)"
proof -
  let ?r = "init (\<lambda>x y d. 0) 1 0 (1, 0, 0) (1, 1, 1) 10 2 False 25 (0::real) (0::nat)"
  note t = init_accepts [of "\<lambda>x y d. 0" 1 0 "(1, 0, 0)" "(1, 1, 1)" 10 2 False 25 "0::real" "0::nat"]
  from t have ok: "\<not> isl ?r" by simp
  then obtain c s where r: "?r = Inr (c, s)" by (cases ?r) auto
  with t have "lb c = 1 \<and> ub c = 0 \<and> n_layers c = 2 \<and> length (hiddens c) = nat (2 - 3)"
    by blast
  with r ok show ?thesis by auto
qed

text \<open>
  Claim C9, as stated, at depth 2 and bounds \<open>lb = 1\<close>, \<open>ub = 0\<close>: the constructor
  returns a model and raises nothing.
\<close>

theorem init_no_error_counterexample:
  "(2::int) < 3 \<and> (0::real) \<le> 1
   \<and> init (\<lambda>x y d. 0) 1 0 (1, 0, 0) (1, 1, 1) 10 2 False 25 (0::real) (0::nat)
     = Inr (\<lparr> ode_f = (\<lambda>x y d. 0), lb = 1, ub = 0, BC = (1, 0, 0), lambdas = (1, 1, 1),
               n_hidden = 10, n_layers = 2, input = [Linear 1 10, Tanh], hiddens = [],
               output_layer = Linear 10 1 \<rparr>,
            \<lparr> params = 0, gen = 0, train_loss = [], validate_loss = [], L2_loss = [],
               lr = 0, last_epoch = 0, printed = [] \<rparr>)"
  by (simp add: init_def nn_Linear_def)

subsection \<open>The training histories\<close>

lemma stop_rule_hist:
  "stop_rule A s = Inr (b, s') \<Longrightarrow>
     train_loss s' = train_loss s \<and> validate_loss s' = validate_loss s \<and> L2_loss s' = L2_loss s"
  by (auto simp: stop_rule_def scheduler_step_def Let_def split: if_splits sum.splits)

lemma epoch_body_hist:
  assumes "epoch_body N R c A L nb e s = Inr s1"
  shows "(\<exists>t v. train_loss s1 = train_loss s @ [t] \<and> validate_loss s1 = validate_loss s @ [v])
       \<and> (if compute_L2_loss A then \<exists>l. L2_loss s1 = L2_loss s @ [l]
           else L2_loss s1 = L2_loss s)"
  using epoch_body_Inr [OF assms] by (auto split: if_splits)

lemma epochs_hist:
  "epochs N R c A L nb es s = Inr s' \<Longrightarrow>
     \<exists>ts vs ls. length ts = length vs \<and> length ts \<le> length es
        \<and> train_loss s' = train_loss s @ ts
        \<and> validate_loss s' = validate_loss s @ vs
        \<and> L2_loss s' = L2_loss s @ ls
        \<and> length ls = (if compute_L2_loss A then length ts else 0)"
proof (induction es arbitrary: s)
  case Nil
  then show ?case by simp
next
  case (Cons e rest)
  from Cons.prems obtain s1 where b: "epoch_body N R c A L nb e s = Inr s1"
    by (auto split: sum.splits)
  with Cons.prems obtain stop s2 where st: "stop_rule A s1 = Inr (stop, s2)"
    by (auto split: sum.splits)
  from epoch_body_hist [OF b] obtain t v l where
    h1: "train_loss s1 = train_loss s @ [t]" "validate_loss s1 = validate_loss s @ [v]"
        "L2_loss s1 = L2_loss s @ (if compute_L2_loss A then [l] else [])"
    by (auto split: if_splits)
  from stop_rule_hist [OF st] have
    h2: "train_loss s2 = train_loss s1" "validate_loss s2 = validate_loss s1"
        "L2_loss s2 = L2_loss s1"
    by simp_all
  show ?case
  proof (cases stop)
    case True
    with Cons.prems b st have "s' = s2" by simp
    then have "length [t] = length [v] \<and> length [t] \<le> length (e # rest)
        \<and> train_loss s' = train_loss s @ [t]
        \<and> validate_loss s' = validate_loss s @ [v]
        \<and> L2_loss s' = L2_loss s @ (if compute_L2_loss A then [l] else [])
        \<and> length (if compute_L2_loss A then [l] else []) = (if compute_L2_loss A then length [t] else 0)"
      using h1 h2 by simp
    then show ?thesis by blast
  next
    case False
    with Cons.prems b st have "epochs N R c A L nb rest s2 = Inr s'" by simp
    from Cons.IH [OF this] obtain ts vs ls where
      ih: "length ts = length vs" "length ts \<le> length rest"
          "train_loss s' = train_loss s2 @ ts" "validate_loss s' = validate_loss s2 @ vs"
          "L2_loss s' = L2_loss s2 @ ls"
          "length ls = (if compute_L2_loss A then length ts else 0)"
      by blast
    have "length (t # ts) = length (v # vs) \<and> length (t # ts) \<le> length (e # rest)
        \<and> train_loss s' = train_loss s @ (t # ts)
        \<and> validate_loss s' = validate_loss s @ (v # vs)
        \<and> L2_loss s' = L2_loss s @ ((if compute_L2_loss A then [l] else []) @ ls)
        \<and> length ((if compute_L2_loss A then [l] else []) @ ls)
            = (if compute_L2_loss A then length (t # ts) else 0)"
      using ih h1 h2 by simp
    then show ?thesis by blast
  qed
qed

lemma Train_hist:
  assumes "Train N R c A s = Inr s'"
  shows "\<exists>ts vs ls. length ts = length vs \<and> length ts \<le> max_epoch A
        \<and> train_loss s' = train_loss s @ ts
        \<and> validate_loss s' = validate_loss s @ vs
        \<and> L2_loss s' = L2_loss s @ ls
        \<and> length ls = (if compute_L2_loss A then length ts else 0)"
proof -
  from assms obtain L g where
    e: "epochs N R c A L (loader_len L) [0..<max_epoch A]
          (s\<lparr>gen := g, params := opt_new N (params s), lr := learning_rate A, last_epoch := 0\<rparr>)
        = Inr s'"
    by (auto simp: Train_def Let_def split: sum.splits if_splits)
  from epochs_hist [OF e] show ?thesis by simp
qed

text \<open>
  Claim C10. The three histories are empty in the session the constructor returns.
  Every completed epoch appends one entry to the train-loss history and one to the
  validation-loss history, and one to the L2 history when the L2 error is computed,
  none otherwise; the rule at the end of an epoch leaves the histories as they are.
  A completed run of \<^verbatim>\<open>Train\<close> extends each history at its end, by the same number of
  entries, at most \<open>max_epoch\<close>: what was recorded before stays in place.
\<close>

theorem history_append_only:
  "(\<forall>c s0. init f_arg lo hi bc lam nh nl rf k (w0::'w) (g::'g) = Inr (c, s0) \<longrightarrow>
       train_loss s0 = [] \<and> validate_loss s0 = [] \<and> L2_loss s0 = [])
   \<and> (\<forall>s1. epoch_body N R c A L nb e (s::('w, 'g) session) = Inr s1 \<longrightarrow>
         (\<exists>t v. train_loss s1 = train_loss s @ [t] \<and> validate_loss s1 = validate_loss s @ [v])
         \<and> (if compute_L2_loss A then \<exists>l. L2_loss s1 = L2_loss s @ [l]
             else L2_loss s1 = L2_loss s))
   \<and> (\<forall>b s2. stop_rule A s = Inr (b, s2) \<longrightarrow>
         train_loss s2 = train_loss s \<and> validate_loss s2 = validate_loss s
         \<and> L2_loss s2 = L2_loss s)
   \<and> (\<forall>s'. Train N R c A s = Inr s' \<longrightarrow>
         (\<exists>ts vs ls. length ts = length vs \<and> length ts \<le> max_epoch A
            \<and> train_loss s' = train_loss s @ ts
            \<and> validate_loss s' = validate_loss s @ vs
            \<and> L2_loss s' = L2_loss s @ ls
            \<and> length ls = (if compute_L2_loss A then length ts else 0)))"
proof -
  have a: "\<forall>c s0. init f_arg lo hi bc lam nh nl rf k w0 g = Inr (c, s0) \<longrightarrow>
       train_loss s0 = [] \<and> validate_loss s0 = [] \<and> L2_loss s0 = []"
    by (auto simp: init_def rff_def split: sum.splits if_splits)
  have b: "\<forall>s1. epoch_body N R c A L nb e s = Inr s1 \<longrightarrow>
         (\<exists>t v. train_loss s1 = train_loss s @ [t] \<and> validate_loss s1 = validate_loss s @ [v])
         \<and> (if compute_L2_loss A then \<exists>l. L2_loss s1 = L2_loss s @ [l]
             else L2_loss s1 = L2_loss s)"
    using epoch_body_hist by blast
  have c: "\<forall>b s2. stop_rule A s = Inr (b, s2) \<longrightarrow>
         train_loss s2 = train_loss s \<and> validate_loss s2 = validate_loss s
         \<and> L2_loss s2 = L2_loss s"
    using stop_rule_hist by blast
  have d: "\<forall>s'. Train N R c A s = Inr s' \<longrightarrow>
         (\<exists>ts vs ls. length ts = length vs \<and> length ts \<le> max_epoch A
            \<and> train_loss s' = train_loss s @ ts
            \<and> validate_loss s' = validate_loss s @ vs
            \<and> L2_loss s' = L2_loss s @ ls
            \<and> length ls = (if compute_L2_loss A then length ts else 0))"
    using Train_hist by blast
  from a b c d show ?thesis by (intro conjI)
qed

theorem history_append_only_witness:
  "(\<exists>c s0. init (\<lambda>x y d. 0) 0 1 (1, 0, 1) (5, 2, 3) 4 3 False 25 (2::real) (0::nat) = Inr (c, s0)
       \<and> train_loss s0 = [] \<and> validate_loss s0 = [] \<and> L2_loss s0 = [])
   \<and> (\<exists>s1 t v l. epoch_body lin_net det_random (cfg 1) args_L2 pair_loader 1 0
                      (sess [Some 7] (1 / 10)) = Inr s1
       \<and> train_loss s1 = train_loss (sess [Some 7] (1 / 10)) @ [t]
       \<and> validate_loss s1 = validate_loss (sess [Some 7] (1 / 10)) @ [v]
       \<and> L2_loss s1 = L2_loss (sess [Some 7] (1 / 10)) @ [l])
   \<and> (\<exists>b s2. stop_rule args_L2 (sess [Some 7] (1 / 10)) = Inr (b, s2)
       \<and> validate_loss s2 = validate_loss (sess [Some 7] (1 / 10)))
   \<and> (\<exists>s' ts vs ls. Train lin_net det_random (cfg 1) args_L2 (sess [Some 7] (1 / 10)) = Inr s'
       \<and> length ts = length vs \<and> length ts \<le> max_epoch args_L2
       \<and> train_loss s' = train_loss (sess [Some 7] (1 / 10)) @ ts
       \<and> validate_loss s' = validate_loss (sess [Some 7] (1 / 10)) @ vs
       \<and> L2_loss s' = L2_loss (sess [Some 7] (1 / 10)) @ ls
       \<and> length ls = length ts)"
proof -
  let ?s = "sess [Some 7] (1 / 10)"
  let ?i = "init (\<lambda>x y d. 0) 0 1 (1, 0, 1) (5, 2, 3) 4 3 False 25 (2::real) (0::nat)"
  let ?b = "epoch_body lin_net det_random (cfg 1) args_L2 pair_loader 1 0 ?s"
  let ?r = "stop_rule args_L2 ?s"
  let ?t = "Train lin_net det_random (cfg 1) args_L2 ?s"
  note t = history_append_only [where f_arg = "\<lambda>x y d. 0" and lo = 0 and hi = 1
      and bc = "(1, 0, 1)" and lam = "(5, 2, 3)" and nh = 4 and nl = 3 and rf = False
      and k = 25 and ?w0.0 = "2::real" and g = "0::nat" and N = lin_net and R = det_random
      and c = "cfg 1" and A = args_L2 and L = pair_loader and nb = 1 and e = 0 and s = ?s]
  have l2: "compute_L2_loss args_L2" by (simp add: args_L2_def)
  have "\<not> isl ?i" by (simp add: init_def nn_Linear_def)
  then obtain c s0 where i: "?i = Inr (c, s0)" by (cases ?i) auto
  with t have c1: "\<exists>c s0. ?i = Inr (c, s0)
       \<and> train_loss s0 = [] \<and> validate_loss s0 = [] \<and> L2_loss s0 = []"
    by blast
  have "\<not> isl ?b"
    by (simp add: run_defs conc_defs args_L2_def pair_loader_def power2_eq_square)
  then obtain s1 where b: "?b = Inr s1" by (cases ?b) auto
  with t l2 have c2: "\<exists>s1 t v l. ?b = Inr s1
       \<and> train_loss s1 = train_loss ?s @ [t]
       \<and> validate_loss s1 = validate_loss ?s @ [v]
       \<and> L2_loss s1 = L2_loss ?s @ [l]"
    by (simp only: if_True) blast
  have "\<not> isl ?r"
    by (simp add: stop_defs conc_defs args_L2_def)
  then obtain bs2 where "?r = Inr bs2" by (cases ?r) auto
  then obtain b2 s2 where r: "?r = Inr (b2, s2)" by (cases bs2) auto
  with t have c3: "\<exists>b s2. ?r = Inr (b, s2) \<and> validate_loss s2 = validate_loss ?s"
    by blast
  have "\<not> isl ?t"
    by (simp add: Train_def run_defs stop_defs conc_defs args_L2_def upt_rec power2_eq_square)
  then obtain s' where tr: "?t = Inr s'" by (cases ?t) auto
  with t l2 have c4: "\<exists>s' ts vs ls. ?t = Inr s'
       \<and> length ts = length vs \<and> length ts \<le> max_epoch args_L2
       \<and> train_loss s' = train_loss ?s @ ts
       \<and> validate_loss s' = validate_loss ?s @ vs
       \<and> L2_loss s' = L2_loss ?s @ ls
       \<and> length ls = length ts"
    by (simp only: if_True) blast
  from c1 c2 c3 c4 show ?thesis by (intro conjI)
qed

subsection \<open>A batch size above the sample count\<close>

lemma chunks_single:
  assumes "xs \<noteq> []" and "length xs \<le> k"
  shows "chunks k xs = [xs]"
proof -
  have k: "k \<noteq> 0" using assms by (cases xs) auto
  have "chunks k xs = take k xs # chunks k (drop k xs)"
    using assms(1) k by (subst chunks.simps) simp
  also have "take k xs = xs" using assms(2) by simp
  also have "chunks k (drop k xs) = []"
    using assms(2) by (subst chunks.simps) simp
  finally show ?thesis .
qed

lemma loader_len_single:
  assumes "0 < length (dataset L)" and "length (dataset L) < batch_size L"
  shows "loader_len L = 1"
proof -
  have "batch_size L * 1 \<le> length (dataset L) + batch_size L - 1" using assms by linarith
  moreover have "length (dataset L) + batch_size L - 1 < batch_size L * Suc 1"
    using assms by simp
  ultimately show ?thesis
    unfolding loader_len_def by (rule div_nat_eqI)
qed

lemma loader_batches_single:
  assumes "0 < length (dataset L)" and "length (dataset L) < batch_size L"
    and "\<forall>n g. length (fst (randperm R n g)) = n"
  shows "fst (loader_batches R L g')
           = [map (\<lambda>i. dataset L ! i) (fst (randperm R (length (dataset L)) g'))]"
proof -
  let ?p = "map (\<lambda>i. dataset L ! i) (fst (randperm R (length (dataset L)) g'))"
  have len: "length ?p = length (dataset L)" using assms(3) by simp
  have "chunks (batch_size L) ?p = [?p]"
  proof (rule chunks_single)
    show "?p \<noteq> []" using len assms(1) by auto
    show "length ?p \<le> batch_size L" using len assms(2) by simp
  qed
  then show ?thesis by (simp add: loader_batches_def Let_def)
qed

lemma run_steps_single:
  "run_steps N c A e nb 0 [x] s acc =
     Inr (if display A
          then print [StepLine (e + 1) (max_epoch A) 1 nb (ResidualLoss N c (params s) x)]
                 (s\<lparr>params := opt_step N (lr s) (\<lambda>w. ResidualLoss N c w x) (params s)\<rparr>)
          else s\<lparr>params := opt_step N (lr s) (\<lambda>w. ResidualLoss N c w x) (params s)\<rparr>,
          nan_add acc (ResidualLoss N c (params s) x))"
  by (simp add: step_shown_def Let_def)

lemma epoch_body_ok:
  assumes "\<forall>g'. \<exists>x. fst (loader_batches R L g') = [x]"
    and "nb \<noteq> 0"
    and "compute_L2_loss A \<longrightarrow> true_sol A \<noteq> None"
  shows "\<exists>s1. epoch_body N R c A L nb e s = Inr s1"
proof -
  let ?s0 = "(if display A then print [Dashes, EpochBanner (e + 1) (max_epoch A)] s else s)"
  from assms(1) obtain x where x: "fst (loader_batches R L (gen ?s0)) = [x]" by blast
  show ?thesis
    unfolding epoch_body_def Let_def x run_steps_single
    using assms(2,3) by (auto split: option.splits)
qed

lemma stop_rule_ok:
  assumes "validate_loss s \<noteq> []" and "0 < lr_step_size A"
  shows "\<exists>b s'. stop_rule A s = Inr (b, s')"
  using assms by (auto simp: stop_rule_def scheduler_step_def Let_def)

lemma epochs_ok:
  assumes "\<forall>g'. \<exists>x. fst (loader_batches R L g') = [x]"
    and "nb \<noteq> 0"
    and "compute_L2_loss A \<longrightarrow> true_sol A \<noteq> None"
    and "0 < lr_step_size A"
  shows "\<exists>s'. epochs N R c A L nb es s = Inr s'"
proof (induction es arbitrary: s)
  case Nil
  show ?case by simp
next
  case (Cons e rest)
  from epoch_body_ok [OF assms(1,2,3)] obtain s1 where
    b: "epoch_body N R c A L nb e s = Inr s1" by blast
  have "validate_loss s1 \<noteq> []" using b by (rule epoch_body_nonempty)
  from stop_rule_ok [OF this assms(4)] obtain stop s2 where
    st: "stop_rule A s1 = Inr (stop, s2)" by blast
  from Cons.IH [of s2] obtain s3 where
    r: "epochs N R c A L nb rest s2 = Inr s3" by blast
  show ?case using b st r by simp
qed

lemma stop_rule_params:
  "stop_rule A s = Inr (b, s') \<Longrightarrow> params s' = params s"
  by (auto simp: stop_rule_def scheduler_step_def Let_def split: if_splits sum.splits)

lemma epoch_body_single:
  assumes "fst (loader_batches R L (gen s)) = [x]"
    and "epoch_body N R c A L nb e s = Inr s2"
  shows "params s2 = opt_step N (lr s) (\<lambda>w. ResidualLoss N c w x) (params s)"
proof -
  from epoch_body_Inr [OF assms(2)] obtain s1 t where
    rs: "run_steps N c A e nb 0 (fst (loader_batches R L (gen s)))
           ((if display A then print [Dashes, EpochBanner (e + 1) (max_epoch A)] s else s)
              \<lparr>gen := snd (loader_batches R L (gen s))\<rparr>) (Some 0) = Inr (s1, t)"
    and p: "params s2 = params s1"
    by blast
  from rs have "params s1 = opt_step N (lr s) (\<lambda>w. ResidualLoss N c w x) (params s)"
    unfolding assms(1) run_steps_single by (auto simp: print_def split: if_splits)
  with p show ?thesis by simp
qed

text \<open>
  Claim C8. For a positive sample count and a batch size strictly above it, the loader
  has length one and every pass over it yields exactly one batch. Every epoch then
  completes and makes exactly one optimizer step, on that batch, with the display on
  or off; the loop runs such an epoch, applies the rule at its end, which makes no
  step, and goes on or stops; \<^verbatim>\<open>Train\<close> is that loop over \<open>max_epoch\<close> epochs and raises
  nothing. The sampler is assumed to return as many rows, and an order of as many
  indices, as it is asked for; the other arguments are assumed to be acceptable on
  their own account: a learning rate that is not negative, a positive scheduler step
  size, and an exact solution whenever the L2 error is requested.
\<close>

theorem one_batch_per_epoch:
  assumes "0 < train_num A" and "train_num A < train_batch_size A"
    and "\<forall>n g. length (fst (rand R n g)) = n"
    and "\<forall>n g. length (fst (randperm R n g)) = n"
    and "0 \<le> learning_rate A" and "0 < lr_step_size A"
    and "compute_L2_loss A \<longrightarrow> true_sol A \<noteq> None"
  shows "\<exists>L g1.
           construct_train_dataloader R c (train_batch_size A) (train_num A) (gen s) = Inr (L, g1)
         \<and> loader_len L = 1
         \<and> (\<forall>g'. length (fst (loader_batches R L g')) = 1)
         \<and> (\<forall>g' e s0 acc. \<exists>s1 t.
               run_steps N c A e (loader_len L) 0 (fst (loader_batches R L g')) s0 acc = Inr (s1, t)
             \<and> params s1 = opt_step N (lr s0)
                              (\<lambda>w. ResidualLoss N c w (hd (fst (loader_batches R L g'))))
                              (params s0))
         \<and> (\<forall>e s0. \<exists>s2.
               epoch_body N R c A L (loader_len L) e s0 = Inr s2
             \<and> params s2 = opt_step N (lr s0)
                              (\<lambda>w. ResidualLoss N c w (hd (fst (loader_batches R L (gen s0)))))
                              (params s0))
         \<and> (\<forall>e rest s0. \<exists>s1 stop s2.
               epoch_body N R c A L (loader_len L) e s0 = Inr s1
             \<and> stop_rule A s1 = Inr (stop, s2)
             \<and> params s2 = params s1
             \<and> epochs N R c A L (loader_len L) (e # rest) s0
                 = (if stop then Inr s2 else epochs N R c A L (loader_len L) rest s2))
         \<and> Train N R c A s
             = epochs N R c A L (loader_len L) [0..<max_epoch A]
                 (s\<lparr>gen := g1, params := opt_new N (params s),
                    lr := learning_rate A, last_epoch := 0\<rparr>)
         \<and> (\<exists>s'. Train N R c A s = Inr s')"
proof -
  define L where "L = \<lparr> dataset = UnlabeledDataset (map (\<lambda>t. (ub c - lb c) * t + lb c)
                                    (fst (rand R (train_num A) (gen s)))),
                        batch_size = train_batch_size A \<rparr>"
  define g1 where "g1 = snd (rand R (train_num A) (gen s))"
  have bs: "train_batch_size A \<noteq> 0" using assms(1,2) by simp
  have dl: "length (dataset L) = train_num A"
    using assms(3) by (simp add: L_def UnlabeledDataset_def)
  have d0: "0 < length (dataset L)" using dl assms(1) by simp
  have ne: "length (UnlabeledDataset (map (\<lambda>t. (ub c - lb c) * t + lb c)
                      (fst (rand R (train_num A) (gen s))))) \<noteq> 0"
    using d0 by (simp add: L_def)
  have ctor: "construct_train_dataloader R c (train_batch_size A) (train_num A) (gen s) = Inr (L, g1)"
    using bs ne by (simp add: construct_train_dataloader_def Let_def L_def g1_def)
  have d1: "length (dataset L) < batch_size L" using dl assms(2) by (simp add: L_def)
  have len: "loader_len L = 1" using d0 d1 by (rule loader_len_single)
  have single: "fst (loader_batches R L g')
           = [map (\<lambda>i. dataset L ! i) (fst (randperm R (length (dataset L)) g'))]" for g'
    using d0 d1 assms(4) by (rule loader_batches_single)
  have one: "\<forall>g'. length (fst (loader_batches R L g')) = 1"
    by (simp add: single)
  have step: "\<forall>g' e s0 acc. \<exists>s1 t.
               run_steps N c A e (loader_len L) 0 (fst (loader_batches R L g')) s0 acc = Inr (s1, t)
             \<and> params s1 = opt_step N (lr s0)
                              (\<lambda>w. ResidualLoss N c w (hd (fst (loader_batches R L g'))))
                              (params s0)"
    unfolding single run_steps_single by (simp add: print_def)
  have ex: "\<forall>g'. \<exists>x. fst (loader_batches R L g') = [x]"
    using single by blast
  have nb: "loader_len L \<noteq> 0" using len by simp
  have body: "\<exists>s2. epoch_body N R c A L (loader_len L) e s0 = Inr s2
             \<and> params s2 = opt_step N (lr s0)
                              (\<lambda>w. ResidualLoss N c w (hd (fst (loader_batches R L (gen s0)))))
                              (params s0)" for e s0
  proof -
    from epoch_body_ok [OF ex nb assms(7)] obtain s2 where
      b: "epoch_body N R c A L (loader_len L) e s0 = Inr s2" by blast
    have "params s2 = opt_step N (lr s0)
            (\<lambda>w. ResidualLoss N c w
                   (map (\<lambda>i. dataset L ! i) (fst (randperm R (length (dataset L)) (gen s0)))))
            (params s0)"
      using single [of "gen s0"] b by (rule epoch_body_single)
    then have "params s2 = opt_step N (lr s0)
            (\<lambda>w. ResidualLoss N c w (hd (fst (loader_batches R L (gen s0))))) (params s0)"
      by (simp add: single)
    with b show ?thesis by blast
  qed
  have loop: "\<exists>s1 stop s2.
               epoch_body N R c A L (loader_len L) e s0 = Inr s1
             \<and> stop_rule A s1 = Inr (stop, s2)
             \<and> params s2 = params s1
             \<and> epochs N R c A L (loader_len L) (e # rest) s0
                 = (if stop then Inr s2 else epochs N R c A L (loader_len L) rest s2)"
    for e rest s0
  proof -
    from epoch_body_ok [OF ex nb assms(7)] obtain s1 where
      b: "epoch_body N R c A L (loader_len L) e s0 = Inr s1" by blast
    have "validate_loss s1 \<noteq> []" using b by (rule epoch_body_nonempty)
    from stop_rule_ok [OF this assms(6)] obtain stop s2 where
      st: "stop_rule A s1 = Inr (stop, s2)" by blast
    have p: "params s2 = params s1" using st by (rule stop_rule_params)
    have "epochs N R c A L (loader_len L) (e # rest) s0
            = (if stop then Inr s2 else epochs N R c A L (loader_len L) rest s2)"
      using b st by simp
    with b st p show ?thesis by blast
  qed
  have tr: "Train N R c A s
             = epochs N R c A L (loader_len L) [0..<max_epoch A]
                 (s\<lparr>gen := g1, params := opt_new N (params s),
                    lr := learning_rate A, last_epoch := 0\<rparr>)"
    using ctor assms(5) by (simp add: Train_def Let_def)
  from epochs_ok [OF ex nb assms(7) assms(6)] obtain s' where
    "epochs N R c A L (loader_len L) [0..<max_epoch A]
       (s\<lparr>gen := g1, params := opt_new N (params s), lr := learning_rate A, last_epoch := 0\<rparr>)
     = Inr s'"
    by blast
  with tr have ok: "\<exists>s'. Train N R c A s = Inr s'" by simp
  from body have body': "\<forall>e s0. \<exists>s2.
               epoch_body N R c A L (loader_len L) e s0 = Inr s2
             \<and> params s2 = opt_step N (lr s0)
                              (\<lambda>w. ResidualLoss N c w (hd (fst (loader_batches R L (gen s0)))))
                              (params s0)" by blast
  from loop have loop': "\<forall>e rest s0. \<exists>s1 stop s2.
               epoch_body N R c A L (loader_len L) e s0 = Inr s1
             \<and> stop_rule A s1 = Inr (stop, s2)
             \<and> params s2 = params s1
             \<and> epochs N R c A L (loader_len L) (e # rest) s0
                 = (if stop then Inr s2 else epochs N R c A L (loader_len L) rest s2)" by blast
  show ?thesis
    apply (rule exI [of _ L])
    apply (rule exI [of _ g1])
    apply (intro conjI)
           apply (rule ctor)
          apply (rule len)
         apply (rule one)
        apply (rule step)
       apply (rule body')
      apply (rule loop')
     apply (rule tr)
    apply (rule ok)
    done
qed

text \<open>
  The theorem at two samples in batches of five, two epochs, display on. The run is
  evaluated as well: the weight goes from 2 to \<open>2 - 1/10\<close> in the first epoch and to
  \<open>2 - 1/10 - 1/20\<close> in the second, one step per epoch at the rate of that epoch, and
  one step line is printed per epoch.
\<close>

theorem one_batch_per_epoch_witness:
  "0 < train_num (args 2 5 2 True)
   \<and> train_num (args 2 5 2 True) < train_batch_size (args 2 5 2 True)
   \<and> (\<exists>L g1. construct_train_dataloader det_random (cfg 1) 5 2 (gen (sess [] 0)) = Inr (L, g1)
         \<and> loader_len L = 1
         \<and> (\<forall>g'. length (fst (loader_batches det_random L g')) = 1)
         \<and> (\<forall>e s0. \<exists>s2.
               epoch_body lin_net det_random (cfg 1) (args 2 5 2 True) L (loader_len L) e s0 = Inr s2
             \<and> params s2 = opt_step lin_net (lr s0)
                  (\<lambda>w. ResidualLoss lin_net (cfg 1) w
                         (hd (fst (loader_batches det_random L (gen s0)))))
                  (params s0)))
   \<and> (\<exists>s'. Train lin_net det_random (cfg 1) (args 2 5 2 True) (sess [] 0) = Inr s')
   \<and> Train lin_net det_random (cfg 1) (args 2 5 2 True) (sess [] 0)
       = Inr \<lparr> params = 37 / 20, gen = 5, train_loss = [Some 3, Some (243 / 100)],
               validate_loss = [Some (243 / 100), Some (867 / 400)], L2_loss = [],
               lr = 1 / 40, last_epoch = 2,
               printed = [Dashes, EpochBanner 1 2, StepLine 1 2 1 1 (Some 3),
                          EpochLine 1 2 (Some 3) (Some (243 / 100)),
                          Dashes, EpochBanner 2 2, StepLine 2 2 1 1 (Some (243 / 100)),
                          EpochLine 2 2 (Some (243 / 100)) (Some (867 / 400))] \<rparr>"
proof -
  let ?A = "args 2 5 2 True"
  have h1: "0 < train_num ?A" and h2: "train_num ?A < train_batch_size ?A"
    and h5: "0 \<le> learning_rate ?A" and h6: "0 < lr_step_size ?A"
    and h7: "compute_L2_loss ?A \<longrightarrow> true_sol ?A \<noteq> None"
    by (simp_all add: args_def)
  have h3: "\<forall>n g. length (fst (rand det_random n g)) = n"
    and h4: "\<forall>n g. length (fst (randperm det_random n g)) = n"
    by (simp_all add: det_random_def)
  have tn: "train_num ?A = 2" and tb: "train_batch_size ?A = 5" by (simp_all add: args_def)
  from one_batch_per_epoch [OF h1 h2 h3 h4 h5 h6 h7, of "cfg 1" "sess [] 0" lin_net]
  have a: "\<exists>L g1.
           construct_train_dataloader det_random (cfg 1) 5 2 (gen (sess [] 0)) = Inr (L, g1)
         \<and> loader_len L = 1
         \<and> (\<forall>g'. length (fst (loader_batches det_random L g')) = 1)
         \<and> (\<forall>e s0. \<exists>s2.
               epoch_body lin_net det_random (cfg 1) ?A L (loader_len L) e s0 = Inr s2
             \<and> params s2 = opt_step lin_net (lr s0)
                  (\<lambda>w. ResidualLoss lin_net (cfg 1) w
                         (hd (fst (loader_batches det_random L (gen s0)))))
                  (params s0))"
    and b: "\<exists>s'. Train lin_net det_random (cfg 1) ?A (sess [] 0) = Inr s'"
    unfolding tn tb by blast+
  have run: "Train lin_net det_random (cfg 1) ?A (sess [] 0)
       = Inr \<lparr> params = 37 / 20, gen = 5, train_loss = [Some 3, Some (243 / 100)],
               validate_loss = [Some (243 / 100), Some (867 / 400)], L2_loss = [],
               lr = 1 / 40, last_epoch = 2,
               printed = [Dashes, EpochBanner 1 2, StepLine 1 2 1 1 (Some 3),
                          EpochLine 1 2 (Some 3) (Some (243 / 100)),
                          Dashes, EpochBanner 2 2, StepLine 2 2 1 1 (Some (243 / 100)),
                          EpochLine 2 2 (Some (243 / 100)) (Some (867 / 400))] \<rparr>"
    by (simp add: Train_def run_defs stop_defs conc_defs upt_rec power2_eq_square)
  from h1 h2 a b run show ?thesis by (intro conjI)
qed

end
